theory Spec2Isabelle
  imports Complex_Main "HOL-Library.AList" "HOL-Library.Sublist"
begin

section \<open>Array operations of the filtering and conversion cells\<close>

text \<open>
  A band is a two-dimensional grid, kept as its list of rows. A cell holds the number the
  raster stores there: the population grid is a floating-point raster, and a cell is taken
  as the exact real value of its floating-point number (the comparison, the substitution
  and the truncation below are exact on floating-point values; NaN and the infinities are
  outside this model).
\<close>

type_synonym ndarray = "real list list"

text \<open>\<^verbatim>\<open>mask = band_cropped > 5000\<close>: the elementwise comparison with a scalar.\<close>

definition gt :: "ndarray \<Rightarrow> real \<Rightarrow> bool list list" where
  "gt a t = map (map (\<lambda>v. t < v)) a"

text \<open>\<^verbatim>\<open>np.where(mask, a, y)\<close> with a scalar \<open>y\<close>, for a mask of the shape of \<open>a\<close>.\<close>

definition np_where :: "bool list list \<Rightarrow> ndarray \<Rightarrow> real \<Rightarrow> ndarray" where
  "np_where m a y = map2 (\<lambda>mr ar. map2 (\<lambda>c v. if c then v else y) mr ar) m a"

text \<open>
  \<^verbatim>\<open>mask = band_cropped > 5000\<close>
  \<^verbatim>\<open>filtered_band = np.where(mask, band_cropped, -200)\<close>
\<close>

definition filtered_band :: "ndarray \<Rightarrow> ndarray" where
  "filtered_band band_cropped = np_where (gt band_cropped 5000) band_cropped (- 200)"

text \<open>
  \<^verbatim>\<open>a.shape\<close> of a two-dimensional array. An array without rows is given width 0 here
  (the list of rows does not keep the width of an empty array).
\<close>

definition shape :: "'a list list \<Rightarrow> nat \<times> nat" where
  "shape a = (length a, case a of [] \<Rightarrow> 0 | r # _ \<Rightarrow> length r)"

text \<open>
  \<^verbatim>\<open>.astype("int32")\<close> on one cell of a floating-point array: the value is truncated
  towards zero. A value whose truncation is outside the range of int32 cannot be kept: the
  cast of NumPy then gives the least int32, -2147483648.
\<close>

definition trunc :: "real \<Rightarrow> int" where
  "trunc v = (if 0 \<le> v then \<lfloor>v\<rfloor> else \<lceil>v\<rceil>)"

definition astype_int32 :: "real \<Rightarrow> real" where
  "astype_int32 v =
     (let t = trunc v in if - (2 ^ 31) \<le> t \<and> t < 2 ^ 31 then of_int t else - 2147483648)"

text \<open>
  The labelled array of xarray, with what rioxarray records on it: the cells, the declared
  nodata value, the affine transform and the CRS.
\<close>

datatype 'v xarray =
  Xarray (xvalues: "real list list") (xnodata: "real option")
         (xtransform: "'v option") (xcrs: "string option")

definition data_array :: "ndarray \<Rightarrow> 'v xarray" where
  "data_array a = Xarray a None None None"

definition astype :: "'v xarray \<Rightarrow> 'v xarray" where
  "astype x = Xarray (map (map astype_int32) (xvalues x))
                     (xnodata x) (xtransform x) (xcrs x)"

definition write_nodata :: "'v xarray \<Rightarrow> real \<Rightarrow> 'v xarray" where
  "write_nodata x n = Xarray (xvalues x) (Some n) (xtransform x) (xcrs x)"

definition write_transform :: "'v xarray \<Rightarrow> 'v \<Rightarrow> 'v xarray" where
  "write_transform x t = Xarray (xvalues x) (xnodata x) (Some t) (xcrs x)"

definition set_crs :: "'v xarray \<Rightarrow> string \<Rightarrow> 'v xarray" where
  "set_crs x c = Xarray (xvalues x) (xnodata x) (xtransform x) (Some c)"

text \<open>
  \<^verbatim>\<open>x_array = (xr.DataArray(filtered_band).astype("int32").rio.write_nodata(-200)\<close>
  \<^verbatim>\<open>             .rio.write_transform(aff).rio.set_crs("ESRI: 54009", inplace=True))\<close>
\<close>

definition x_array :: "ndarray \<Rightarrow> 'v \<Rightarrow> 'v xarray" where
  "x_array fb aff =
     set_crs (write_transform (write_nodata (astype (data_array fb)) (- 200)) aff) ''ESRI: 54009''"

section \<open>The profile\<close>

text \<open>
  A profile is a dictionary from field names to values; \<^verbatim>\<open>d.update(k1=v1, ...)\<close> stores the
  given fields one after the other and leaves every other field as it was.
\<close>

definition dict_update :: "(string \<times> 'v) list \<Rightarrow> (string \<times> 'v) list \<Rightarrow> (string \<times> 'v) list" where
  "dict_update d kws = foldl (\<lambda>acc (k, v). AList.update k v acc) d kws"

text \<open>
  \<^verbatim>\<open>profile.update(transform=aff, height=filtered_band.shape[0], width=filtered_band.shape[1])\<close>
  with the three values already computed.
\<close>

definition profile_update :: "(string \<times> 'v) list \<Rightarrow> 'v \<Rightarrow> 'v \<Rightarrow> 'v \<Rightarrow> (string \<times> 'v) list" where
  "profile_update profile aff h w =
     dict_update profile [(''transform'', aff), (''height'', h), (''width'', w)]"

section \<open>Values, library calls and the execution of a notebook\<close>

text \<open>
  The values a notebook variable can hold. Objects of the geospatial libraries (dataset
  handles, paths, affine transforms, windows, geometries, frames, figures) are never looked
  into by the notebooks: they are opaque handles \<open>VObj\<close>.
\<close>

datatype pyval =
    VNone
  | VBool bool
  | VNum real
  | VStr string
  | VList "pyval list"
  | VTuple "pyval list"
  | VDict "(string \<times> pyval) list"
  | VArray "real list list"
  | VMask "bool list list"
  | VXarray "pyval xarray"
  | VObj nat

datatype exn = Exn string

text \<open>
  Every operation the notebooks perform on a value is a call: the function or method of the
  source with its arguments, in the order of the source.
\<close>

datatype call =
    Here string                              \<comment> \<open>\<^verbatim>\<open>here(rel)\<close>\<close>
  | PathJoin pyval string                    \<comment> \<open>\<^verbatim>\<open>os.path.join(path, name)\<close>\<close>
  | RioOpen pyval string pyval               \<comment> \<open>\<^verbatim>\<open>rio.open(path, mode, **kwargs)\<close>\<close>
  | Enter pyval                              \<comment> \<open>\<^verbatim>\<open>with m as v\<close>: entering\<close>
  | Exit pyval                               \<comment> \<open>\<^verbatim>\<open>with m as v\<close>: leaving\<close>
  | GetAttr pyval string                     \<comment> \<open>\<^verbatim>\<open>obj.name\<close>\<close>
  | SetAttr pyval string pyval               \<comment> \<open>\<^verbatim>\<open>obj.name = v\<close>\<close>
  | GetItem pyval nat                        \<comment> \<open>\<^verbatim>\<open>obj[i]\<close>\<close>
  | Print string pyval                       \<comment> \<open>\<^verbatim>\<open>print(f"label{v}")\<close>\<close>
  | TypeOf pyval                             \<comment> \<open>\<^verbatim>\<open>type(v)\<close>\<close>
  | Imshow pyval                             \<comment> \<open>\<^verbatim>\<open>plt.imshow(a)\<close>\<close>
  | Read pyval nat "pyval option"            \<comment> \<open>\<^verbatim>\<open>ds.read(i)\<close>, \<^verbatim>\<open>ds.read(i, window=w)\<close>\<close>
  | Write pyval pyval nat                    \<comment> \<open>\<^verbatim>\<open>w.write(a, i)\<close>\<close>
  | Box "real list"                          \<comment> \<open>\<^verbatim>\<open>box(*bbox)\<close>\<close>
  | GeoDataFrame "pyval list" string         \<comment> \<open>\<^verbatim>\<open>gpd.GeoDataFrame(geometry=gs, crs=c)\<close>\<close>
  | ToCrs pyval string                       \<comment> \<open>\<^verbatim>\<open>gdf.to_crs(c)\<close>\<close>
  | RasterGeometryMask pyval pyval bool bool \<comment> \<open>\<^verbatim>\<open>raster_geometry_mask(ds, shapes, crop=, all_touched=)\<close>\<close>
  | Gt pyval real                            \<comment> \<open>\<^verbatim>\<open>a > t\<close>\<close>
  | Where pyval pyval real                   \<comment> \<open>\<^verbatim>\<open>np.where(m, a, y)\<close>\<close>
  | DictUpdate pyval "(string \<times> pyval) list" \<comment> \<open>\<^verbatim>\<open>d.update(k=v, ...)\<close>\<close>
  | DataArray pyval                          \<comment> \<open>\<^verbatim>\<open>xr.DataArray(a)\<close>\<close>
  | Astype pyval string                      \<comment> \<open>\<^verbatim>\<open>x.astype(t)\<close>\<close>
  | WriteNodata pyval real                   \<comment> \<open>\<^verbatim>\<open>x.rio.write_nodata(n)\<close>\<close>
  | WriteTransform pyval pyval               \<comment> \<open>\<^verbatim>\<open>x.rio.write_transform(t)\<close>\<close>
  | SetCrs pyval string bool                 \<comment> \<open>\<^verbatim>\<open>x.rio.set_crs(c, inplace=b)\<close>\<close>
  | Vectorize pyval                          \<comment> \<open>\<^verbatim>\<open>vectorize(x)\<close>\<close>
  | Explore pyval                            \<comment> \<open>\<^verbatim>\<open>gdf.explore()\<close>\<close>

text \<open>
  The calls whose result is fixed by Python, NumPy and xarray on plain values: array
  comparison and selection, the shape, indexing a sequence, updating a dictionary, and the
  labelled-array chain. A call on any other value is answered by the library.
\<close>

definition builtin :: "call \<Rightarrow> (exn + pyval) option" where
  "builtin c =
     (case c of
        Gt (VArray a) t \<Rightarrow> Some (Inr (VMask (gt a t)))
      | Where (VMask m) (VArray a) y \<Rightarrow>
          (if map length m = map length a then Some (Inr (VArray (np_where m a y))) else None)
      | GetAttr (VArray a) n \<Rightarrow>
          (if n = ''shape''
           then Some (Inr (VTuple [VNum (of_nat (fst (shape a))), VNum (of_nat (snd (shape a)))]))
           else None)
      | GetItem (VTuple vs) i \<Rightarrow>
          Some (if i < length vs then Inr (vs ! i) else Inl (Exn ''IndexError''))
      | GetItem (VList vs) i \<Rightarrow>
          Some (if i < length vs then Inr (vs ! i) else Inl (Exn ''IndexError''))
      | DictUpdate (VDict d) kws \<Rightarrow> Some (Inr (VDict (dict_update d kws)))
      | DataArray (VArray a) \<Rightarrow> Some (Inr (VXarray (data_array a)))
      | Astype (VXarray x) t \<Rightarrow> (if t = ''int32'' then Some (Inr (VXarray (astype x))) else None)
      | WriteNodata (VXarray x) n \<Rightarrow> Some (Inr (VXarray (write_nodata x n)))
      | WriteTransform (VXarray x) t \<Rightarrow> Some (Inr (VXarray (write_transform x t)))
      | SetCrs (VXarray x) crs b \<Rightarrow> Some (Inr (VXarray (set_crs x crs)))
      | _ \<Rightarrow> None)"

text \<open>
  The libraries are a parameter: a function that answers a call in a state of the world
  (the file system, the objects behind the handles, the screen) with an exception or a
  value, and the next state of the world.
\<close>

type_synonym 'w library = "call \<Rightarrow> 'w \<Rightarrow> (exn + pyval) \<times> 'w"

definition answer :: "'w library \<Rightarrow> call \<Rightarrow> 'w \<Rightarrow> (exn + pyval) \<times> 'w" where
  "answer lib c w = (case builtin c of Some r \<Rightarrow> (r, w) | None \<Rightarrow> lib c w)"

text \<open>The state of a run: the world, and the calls made so far with their outcomes.\<close>

record 'w state =
  world :: 'w
  trace :: "(call \<times> (exn + pyval)) list"

type_synonym ('w, 'a) py = "'w state \<Rightarrow> (exn + 'a) \<times> 'w state"

definition init :: "'w \<Rightarrow> 'w state" where
  "init w = \<lparr>world = w, trace = []\<rparr>"

definition py_return :: "'a \<Rightarrow> ('w, 'a) py" where
  "py_return x s = (Inr x, s)"

definition py_raise :: "exn \<Rightarrow> ('w, 'a) py" where
  "py_raise e s = (Inl e, s)"

text \<open>Statements in sequence: an exception ends the run where it is raised.\<close>

definition py_bind :: "('w, 'a) py \<Rightarrow> ('a \<Rightarrow> ('w, 'b) py) \<Rightarrow> ('w, 'b) py" where
  "py_bind m f s = (case m s of (Inl e, s') \<Rightarrow> (Inl e, s') | (Inr x, s') \<Rightarrow> f x s')"

definition call :: "'w library \<Rightarrow> call \<Rightarrow> ('w, pyval) py" where
  "call lib c s =
     (case answer lib c (world s) of
        (r, w') \<Rightarrow> (r, \<lparr>world = w', trace = trace s @ [(c, r)]\<rparr>))"

text \<open>Truth value of a result, as the \<^verbatim>\<open>with\<close> statement tests what leaving returns.\<close>

definition truthy :: "pyval \<Rightarrow> bool" where
  "truthy v =
     (case v of
        VNone \<Rightarrow> False
      | VBool b \<Rightarrow> b
      | VNum x \<Rightarrow> x \<noteq> 0
      | VStr s \<Rightarrow> s \<noteq> []
      | VList vs \<Rightarrow> vs \<noteq> []
      | VTuple vs \<Rightarrow> vs \<noteq> []
      | VDict d \<Rightarrow> d \<noteq> []
      | _ \<Rightarrow> True)"

text \<open>
  \<^verbatim>\<open>with mgr as v: body\<close>. The manager is entered, the body runs, and the manager is left
  whether the body raised or not; the body's exception is raised again afterwards unless
  leaving returns a true value.
\<close>

definition py_with :: "'w library \<Rightarrow> ('w, pyval) py \<Rightarrow> (pyval \<Rightarrow> ('w, 'a) py) \<Rightarrow> ('w, unit) py" where
  "py_with lib mgr body =
     py_bind mgr (\<lambda>m.
     py_bind (call lib (Enter m)) (\<lambda>v s.
       case body v s of
         (Inr _, s') \<Rightarrow> py_bind (call lib (Exit m)) (\<lambda>_. py_return ()) s'
       | (Inl e, s') \<Rightarrow>
           (case call lib (Exit m) s' of
              (Inl e', s'') \<Rightarrow> (Inl e', s'')
            | (Inr r, s'') \<Rightarrow> if truthy r then (Inr (), s'') else (Inl e, s''))))"

text \<open>
  \<^verbatim>\<open>a, b, c = t\<close>: a sequence of three values is taken apart, anything else raises.
\<close>

definition unpack3 :: "pyval \<Rightarrow> ('w, pyval \<times> pyval \<times> pyval) py" where
  "unpack3 t =
     (case t of
        VTuple [a, b, c] \<Rightarrow> py_return (a, b, c)
      | VList [a, b, c] \<Rightarrow> py_return (a, b, c)
      | _ \<Rightarrow> py_raise (Exn ''ValueError''))"

section \<open>The notebook \<^verbatim>\<open>raster.ipynb\<close>\<close>

text \<open>
  Each code cell is a function of the variables it reads, returning the variables it sets.
  The first code cell of both notebooks only imports the libraries; it makes no call and
  is not part of the model, and neither are the markdown cells.
  \<^verbatim>\<open>path = here("data")\<close>
  \<^verbatim>\<open>dataset = rio.open(os.path.join(path, "GHS_POP_E2020_GLOBE_R2023A_54009_1000_V1_0_R3_C18.tif"))\<close>
\<close>

definition raster_open :: "'w library \<Rightarrow> ('w, pyval) py" where
  "raster_open lib =
     py_bind (call lib (Here ''data'')) (\<lambda>path.
     py_bind (call lib (PathJoin path ''GHS_POP_E2020_GLOBE_R2023A_54009_1000_V1_0_R3_C18.tif'')) (\<lambda>p.
     call lib (RioOpen p ''r'' (VDict []))))"

text \<open>The six \<^verbatim>\<open>print(f"...: {dataset.attr}")\<close> lines of the properties cell.\<close>

definition raster_properties :: "'w library \<Rightarrow> pyval \<Rightarrow> ('w, unit) py" where
  "raster_properties lib dataset =
     py_bind (call lib (GetAttr dataset ''count'')) (\<lambda>v1.
     py_bind (call lib (Print ''Number of layers: '' v1)) (\<lambda>_.
     py_bind (call lib (GetAttr dataset ''width'')) (\<lambda>v2.
     py_bind (call lib (Print ''Number of columns: '' v2)) (\<lambda>_.
     py_bind (call lib (GetAttr dataset ''height'')) (\<lambda>v3.
     py_bind (call lib (Print ''Number of rows: '' v3)) (\<lambda>_.
     py_bind (call lib (GetAttr dataset ''crs'')) (\<lambda>v4.
     py_bind (call lib (Print ''CRS: '' v4)) (\<lambda>_.
     py_bind (call lib (GetAttr dataset ''transform'')) (\<lambda>v5.
     py_bind (call lib (Print (''Affine transform:'' @ [CHR 0x0A]) v5)) (\<lambda>_.
     py_bind (call lib (GetAttr dataset ''bounds'')) (\<lambda>v6.
     py_bind (call lib (Print ''Boundaries: '' v6)) (\<lambda>_.
     py_return ()))))))))))))"

text \<open>
  \<^verbatim>\<open>band = dataset.read(1); print(band); print(type(band)); plt.imshow(band)\<close>
\<close>

definition raster_band :: "'w library \<Rightarrow> pyval \<Rightarrow> ('w, pyval) py" where
  "raster_band lib dataset =
     py_bind (call lib (Read dataset 1 None)) (\<lambda>band.
     py_bind (call lib (Print [] band)) (\<lambda>_.
     py_bind (call lib (TypeOf band)) (\<lambda>t.
     py_bind (call lib (Print [] t)) (\<lambda>_.
     py_bind (call lib (Imshow band)) (\<lambda>_.
     py_return band)))))"

text \<open>\<^verbatim>\<open>bbox = [-3.6955, 51.1869, -2.3002, 51.9855]\<close>\<close>

definition bbox :: "real list" where
  "bbox = [- 3.6955, 51.1869, - 2.3002, 51.9855]"

text \<open>
  \<^verbatim>\<open>bbox_gdf = gpd.GeoDataFrame(geometry=[box(*bbox)], crs="EPSG: 4326").to_crs("ESRI: 54009")\<close>
  \<^verbatim>\<open>_, aff, window = raster_geometry_mask(dataset, bbox_gdf.geometry.values, crop=True, all_touched=True)\<close>
  \<^verbatim>\<open>band_cropped = dataset.read(1, window=window)\<close>
  \<^verbatim>\<open>plt.imshow(band_cropped)\<close>
  The cell returns \<open>aff\<close>, \<open>window\<close> and \<open>band_cropped\<close>.
\<close>

definition raster_crop :: "'w library \<Rightarrow> pyval \<Rightarrow> ('w, pyval \<times> pyval \<times> pyval) py" where
  "raster_crop lib dataset =
     py_bind (call lib (Box bbox)) (\<lambda>b.
     py_bind (call lib (GeoDataFrame [b] ''EPSG: 4326'')) (\<lambda>g.
     py_bind (call lib (ToCrs g ''ESRI: 54009'')) (\<lambda>bbox_gdf.
     py_bind (call lib (GetAttr bbox_gdf ''geometry'')) (\<lambda>gs.
     py_bind (call lib (GetAttr gs ''values'')) (\<lambda>shapes.
     py_bind (call lib (RasterGeometryMask dataset shapes True True)) (\<lambda>t.
     py_bind (unpack3 t) (\<lambda>(_, aff, window).
     py_bind (call lib (Read dataset 1 (Some window))) (\<lambda>band_cropped.
     py_bind (call lib (Imshow band_cropped)) (\<lambda>_.
     py_return (aff, window, band_cropped))))))))))"

text \<open>The variables a notebook has set when it ends.\<close>

record raster_vars =
  v_dataset :: pyval
  v_band :: pyval
  v_aff :: pyval
  v_window :: pyval
  v_band_cropped :: pyval

definition raster_notebook :: "'w library \<Rightarrow> ('w, raster_vars) py" where
  "raster_notebook lib =
     py_bind (raster_open lib) (\<lambda>dataset.
     py_bind (raster_properties lib dataset) (\<lambda>_.
     py_bind (raster_band lib dataset) (\<lambda>band.
     py_bind (raster_crop lib dataset) (\<lambda>(aff, window, band_cropped).
     py_return \<lparr>v_dataset = dataset, v_band = band, v_aff = aff, v_window = window,
                v_band_cropped = band_cropped\<rparr>))))"

section \<open>The longer notebook\<close>

text \<open>Its first four code cells, as they stand in its own file.\<close>

definition nb_open :: "'w library \<Rightarrow> ('w, pyval) py" where
  "nb_open lib =
     py_bind (call lib (Here ''data'')) (\<lambda>path.
     py_bind (call lib (PathJoin path ''GHS_POP_E2020_GLOBE_R2023A_54009_1000_V1_0_R3_C18.tif'')) (\<lambda>p.
     call lib (RioOpen p ''r'' (VDict []))))"

definition nb_properties :: "'w library \<Rightarrow> pyval \<Rightarrow> ('w, unit) py" where
  "nb_properties lib dataset =
     py_bind (call lib (GetAttr dataset ''count'')) (\<lambda>v1.
     py_bind (call lib (Print ''Number of layers: '' v1)) (\<lambda>_.
     py_bind (call lib (GetAttr dataset ''width'')) (\<lambda>v2.
     py_bind (call lib (Print ''Number of columns: '' v2)) (\<lambda>_.
     py_bind (call lib (GetAttr dataset ''height'')) (\<lambda>v3.
     py_bind (call lib (Print ''Number of rows: '' v3)) (\<lambda>_.
     py_bind (call lib (GetAttr dataset ''crs'')) (\<lambda>v4.
     py_bind (call lib (Print ''CRS: '' v4)) (\<lambda>_.
     py_bind (call lib (GetAttr dataset ''transform'')) (\<lambda>v5.
     py_bind (call lib (Print (''Affine transform:'' @ [CHR 0x0A]) v5)) (\<lambda>_.
     py_bind (call lib (GetAttr dataset ''bounds'')) (\<lambda>v6.
     py_bind (call lib (Print ''Boundaries: '' v6)) (\<lambda>_.
     py_return ()))))))))))))"

definition nb_band :: "'w library \<Rightarrow> pyval \<Rightarrow> ('w, pyval) py" where
  "nb_band lib dataset =
     py_bind (call lib (Read dataset 1 None)) (\<lambda>band.
     py_bind (call lib (Print [] band)) (\<lambda>_.
     py_bind (call lib (TypeOf band)) (\<lambda>t.
     py_bind (call lib (Print [] t)) (\<lambda>_.
     py_bind (call lib (Imshow band)) (\<lambda>_.
     py_return band)))))"

definition nb_crop :: "'w library \<Rightarrow> pyval \<Rightarrow> ('w, pyval \<times> pyval \<times> pyval) py" where
  "nb_crop lib dataset =
     py_bind (call lib (Box bbox)) (\<lambda>b.
     py_bind (call lib (GeoDataFrame [b] ''EPSG: 4326'')) (\<lambda>g.
     py_bind (call lib (ToCrs g ''ESRI: 54009'')) (\<lambda>bbox_gdf.
     py_bind (call lib (GetAttr bbox_gdf ''geometry'')) (\<lambda>gs.
     py_bind (call lib (GetAttr gs ''values'')) (\<lambda>shapes.
     py_bind (call lib (RasterGeometryMask dataset shapes True True)) (\<lambda>t.
     py_bind (unpack3 t) (\<lambda>(_, aff, window).
     py_bind (call lib (Read dataset 1 (Some window))) (\<lambda>band_cropped.
     py_bind (call lib (Imshow band_cropped)) (\<lambda>_.
     py_return (aff, window, band_cropped))))))))))"

text \<open>
  The filtering and saving cell:
  \<^verbatim>\<open>mask = band_cropped > 5000\<close>
  \<^verbatim>\<open>filtered_band = np.where(mask, band_cropped, -200)\<close>
  \<^verbatim>\<open>plt.imshow(filtered_band)\<close>
  \<^verbatim>\<open>profile = dataset.profile\<close>
  \<^verbatim>\<open>print(profile)\<close>
  \<^verbatim>\<open>profile.update(transform=aff, height=filtered_band.shape[0], width=filtered_band.shape[1])\<close>
  \<^verbatim>\<open>with rio.open(here("data/modified_raster.tif"), "w", **profile) as w:\<close>
  \<^verbatim>\<open>    w.write(filtered_band, 1)\<close>
  The update changes the dictionary in place; the cell returns \<open>filtered_band\<close> and the
  updated \<open>profile\<close>.
\<close>

definition nb_filter :: "'w library \<Rightarrow> pyval \<Rightarrow> pyval \<Rightarrow> pyval \<Rightarrow> ('w, pyval \<times> pyval) py" where
  "nb_filter lib dataset aff band_cropped =
     py_bind (call lib (Gt band_cropped 5000)) (\<lambda>mask.
     py_bind (call lib (Where mask band_cropped (- 200))) (\<lambda>fb.
     py_bind (call lib (Imshow fb)) (\<lambda>_.
     py_bind (call lib (GetAttr dataset ''profile'')) (\<lambda>profile.
     py_bind (call lib (Print [] profile)) (\<lambda>_.
     py_bind (call lib (GetAttr fb ''shape'')) (\<lambda>sh0.
     py_bind (call lib (GetItem sh0 0)) (\<lambda>h.
     py_bind (call lib (GetAttr fb ''shape'')) (\<lambda>sh1.
     py_bind (call lib (GetItem sh1 1)) (\<lambda>w.
     py_bind (call lib (DictUpdate profile [(''transform'', aff), (''height'', h), (''width'', w)]))
       (\<lambda>profile'.
     py_bind (py_with lib
        (py_bind (call lib (Here ''data/modified_raster.tif'')) (\<lambda>p.
         call lib (RioOpen p ''w'' profile')))
        (\<lambda>wr. call lib (Write wr fb 1))) (\<lambda>_.
     py_return (fb, profile'))))))))))))"

text \<open>
  \<^verbatim>\<open>with rio.open(here("data/modified_raster.tif")) as r:\<close>
  \<^verbatim>\<open>    d = r.read(1); print(r.profile); plt.imshow(d)\<close>
\<close>

definition nb_reread :: "'w library \<Rightarrow> ('w, unit) py" where
  "nb_reread lib =
     py_with lib
       (py_bind (call lib (Here ''data/modified_raster.tif'')) (\<lambda>p.
        call lib (RioOpen p ''r'' (VDict []))))
       (\<lambda>r.
          py_bind (call lib (Read r 1 None)) (\<lambda>d.
          py_bind (call lib (GetAttr r ''profile'')) (\<lambda>pr.
          py_bind (call lib (Print [] pr)) (\<lambda>_.
          call lib (Imshow d)))))"

text \<open>
  The conversion and vectorisation cell:
  \<^verbatim>\<open>x_array = (xr.DataArray(filtered_band).astype("int32").rio.write_nodata(-200)\<close>
  \<^verbatim>\<open>             .rio.write_transform(aff).rio.set_crs("ESRI: 54009", inplace=True))\<close>
  \<^verbatim>\<open>print(x_array)\<close>
  \<^verbatim>\<open>gdf = vectorize(x_array)\<close>
  \<^verbatim>\<open>gdf.columns = ["label", "geometry"]\<close>
  \<^verbatim>\<open>gdf.explore()\<close>
\<close>

definition nb_vectorize :: "'w library \<Rightarrow> pyval \<Rightarrow> pyval \<Rightarrow> ('w, pyval \<times> pyval) py" where
  "nb_vectorize lib fb aff =
     py_bind (call lib (DataArray fb)) (\<lambda>x0.
     py_bind (call lib (Astype x0 ''int32'')) (\<lambda>x1.
     py_bind (call lib (WriteNodata x1 (- 200))) (\<lambda>x2.
     py_bind (call lib (WriteTransform x2 aff)) (\<lambda>x3.
     py_bind (call lib (SetCrs x3 ''ESRI: 54009'' True)) (\<lambda>xa.
     py_bind (call lib (Print [] xa)) (\<lambda>_.
     py_bind (call lib (Vectorize xa)) (\<lambda>gdf.
     py_bind (call lib (SetAttr gdf ''columns'' (VList [VStr ''label'', VStr ''geometry'']))) (\<lambda>_.
     py_bind (call lib (Explore gdf)) (\<lambda>_.
     py_return (xa, gdf))))))))))"

record nb_vars = raster_vars +
  v_filtered_band :: pyval
  v_profile :: pyval
  v_x_array :: pyval
  v_gdf :: pyval

definition notebook :: "'w library \<Rightarrow> ('w, nb_vars) py" where
  "notebook lib =
     py_bind (nb_open lib) (\<lambda>dataset.
     py_bind (nb_properties lib dataset) (\<lambda>_.
     py_bind (nb_band lib dataset) (\<lambda>band.
     py_bind (nb_crop lib dataset) (\<lambda>(aff, window, band_cropped).
     py_bind (nb_filter lib dataset aff band_cropped) (\<lambda>(fb, profile).
     py_bind (nb_reread lib) (\<lambda>_.
     py_bind (nb_vectorize lib fb aff) (\<lambda>(xa, gdf).
     py_return \<lparr>v_dataset = dataset, v_band = band, v_aff = aff, v_window = window,
                v_band_cropped = band_cropped, v_filtered_band = fb, v_profile = profile,
                v_x_array = xa, v_gdf = gdf\<rparr>)))))))"

section \<open>Properties of a library and of a run\<close>

text \<open>
  A library whose context managers never ask for the exception of the body to be dropped:
  leaving never returns a true value (rasterio's datasets return \<^verbatim>\<open>None\<close>).
\<close>

definition no_suppress :: "'w library \<Rightarrow> bool" where
  "no_suppress lib = (\<forall>m w r w'. lib (Exit m) w = (Inr r, w') \<longrightarrow> \<not> truthy r)"

text \<open>The calls of a trace that raised, and the calls made after the first one that raised.\<close>

definition failures :: "(call \<times> (exn + pyval)) list \<Rightarrow> exn list" where
  "failures tr = concat (map (\<lambda>(c, r). case r of Inl e \<Rightarrow> [e] | Inr _ \<Rightarrow> []) tr)"

definition after_failure :: "(call \<times> (exn + pyval)) list \<Rightarrow> call list" where
  "after_failure tr = map fst (tl (dropWhile (\<lambda>(c, r). \<not> isl r) tr))"

definition is_exit :: "call \<Rightarrow> bool" where
  "is_exit c = (case c of Exit _ \<Rightarrow> True | _ \<Rightarrow> False)"

definition is_mask_call :: "call \<Rightarrow> bool" where
  "is_mask_call c = (case c of RasterGeometryMask _ _ _ _ \<Rightarrow> True | _ \<Rightarrow> False)"

definition is_window_read :: "call \<Rightarrow> bool" where
  "is_window_read c = (case c of Read _ _ (Some _) \<Rightarrow> True | _ \<Rightarrow> False)"

definition is_write_open :: "call \<Rightarrow> bool" where
  "is_write_open c = (case c of RioOpen _ m _ \<Rightarrow> m = ''w'' | _ \<Rightarrow> False)"

definition is_write :: "call \<Rightarrow> bool" where
  "is_write c = (case c of Write _ _ _ \<Rightarrow> True | _ \<Rightarrow> False)"

definition is_vectorize :: "call \<Rightarrow> bool" where
  "is_vectorize c = (case c of Vectorize _ \<Rightarrow> True | _ \<Rightarrow> False)"

definition is_where :: "call \<Rightarrow> bool" where
  "is_where c = (case c of Where _ _ _ \<Rightarrow> True | _ \<Rightarrow> False)"

definition is_write_nodata :: "call \<Rightarrow> bool" where
  "is_write_nodata c = (case c of WriteNodata _ _ \<Rightarrow> True | _ \<Rightarrow> False)"



text \<open>
  An entry of the trace agrees with Python, NumPy and xarray when the call is one of those
  whose result they fix.
\<close>

definition consistent :: "call \<times> (exn + pyval) \<Rightarrow> bool" where
  "consistent e = (case builtin (fst e) of Some r \<Rightarrow> snd e = r | None \<Rightarrow> True)"

text \<open>
  The exception a run ends with, if any. \<open>outcome r new\<close>: if one of the calls \<open>new\<close> raised,
  the run ends with the exception of the last call that raised, and after the first call
  that raised only \<^verbatim>\<open>with\<close> blocks are left.
\<close>

definition raised :: "exn + 'a \<Rightarrow> exn option" where
  "raised r = (case r of Inl e \<Rightarrow> Some e | Inr _ \<Rightarrow> None)"

definition outcome :: "exn option \<Rightarrow> (call \<times> (exn + pyval)) list \<Rightarrow> bool" where
  "outcome r new =
     ((failures new \<noteq> [] \<longrightarrow> r = Some (last (failures new))) \<and>
      list_all is_exit (after_failure new))"

definition propagates :: "'w library \<Rightarrow> ('w, 'a) py \<Rightarrow> bool" where
  "propagates lib m =
     (\<forall>s r s'. m s = (r, s') \<longrightarrow>
        (\<exists>new. trace s' = trace s @ new \<and> (no_suppress lib \<longrightarrow> outcome (raised r) new)))"

section \<open>The flow of the specification\<close>










section \<open>A small library in memory\<close>

text \<open>
  An instance of the library interface on which the notebooks can be run: one input raster
  of three rows, a window that selects part of it, and a world that holds what has been
  written to \<^verbatim>\<open>data/modified_raster.tif\<close> (its profile and its band).
\<close>

type_synonym demo_world = "(pyval \<times> pyval) option"

definition demo_band :: ndarray where
  "demo_band = [[1, 5000, 5000.5, 7000], [- 200, 6000, 0, 5001], [3, 4, 5, 6]]"

definition demo_cropped :: ndarray where
  "demo_cropped = [[5000, 5000.5, 7000], [6000, 0, 5001]]"

definition demo_profile :: "(string \<times> pyval) list" where
  "demo_profile =
     [(''driver'', VStr ''GTiff''), (''dtype'', VStr ''float64''), (''nodata'', VNum (- 200)),
      (''width'', VNum 4), (''height'', VNum 3), (''count'', VNum 1),
      (''crs'', VStr ''ESRI:54009''), (''transform'', VObj 10)]"

definition demo_attr :: "demo_world \<Rightarrow> pyval \<Rightarrow> string \<Rightarrow> exn + pyval" where
  "demo_attr w obj n =
     (if obj = VObj 1 then
        (case map_of (demo_profile @ [(''bounds'', VObj 11), (''profile'', VDict demo_profile)]) n of
           Some v \<Rightarrow> Inr v | None \<Rightarrow> Inl (Exn ''AttributeError''))
      else if obj = VObj 3 \<and> n = ''profile'' then
        (case w of Some (p, _) \<Rightarrow> Inr p | None \<Rightarrow> Inl (Exn ''RasterioIOError''))
      else if obj = VObj 22 \<and> n = ''geometry'' then Inr (VObj 23)
      else if obj = VObj 23 \<and> n = ''values'' then Inr (VList [VObj 24])
      else Inl (Exn ''AttributeError''))"

definition demo_open :: "demo_world \<Rightarrow> pyval \<Rightarrow> string \<Rightarrow> pyval \<Rightarrow> (exn + pyval) \<times> demo_world" where
  "demo_open w path m kw =
     (if m = ''w'' then (Inr (VObj 2), Some (kw, VNone))
      else if path = VStr ''data/modified_raster.tif'' then
        (case w of Some _ \<Rightarrow> (Inr (VObj 3), w) | None \<Rightarrow> (Inl (Exn ''RasterioIOError''), w))
      else if path = VStr ''data/GHS_POP_E2020_GLOBE_R2023A_54009_1000_V1_0_R3_C18.tif''
      then (Inr (VObj 1), w)
      else (Inl (Exn ''RasterioIOError''), w))"

definition demo_read :: "demo_world \<Rightarrow> pyval \<Rightarrow> pyval option \<Rightarrow> exn + pyval" where
  "demo_read w ds win =
     (if ds = VObj 1 then
        (case win of None \<Rightarrow> Inr (VArray demo_band)
         | Some x \<Rightarrow> if x = VObj 13 then Inr (VArray demo_cropped) else Inl (Exn ''WindowError''))
      else if ds = VObj 3 then
        (case w of Some (_, b) \<Rightarrow> Inr b | None \<Rightarrow> Inl (Exn ''RasterioIOError''))
      else Inl (Exn ''RasterioIOError''))"

definition demo_lib :: "demo_world library" where
  "demo_lib c w =
     (case c of
        Here rel \<Rightarrow> (Inr (VStr rel), w)
      | PathJoin p n \<Rightarrow>
          (case p of VStr a \<Rightarrow> (Inr (VStr (a @ ''/'' @ n)), w) | _ \<Rightarrow> (Inl (Exn ''TypeError''), w))
      | RioOpen p m kw \<Rightarrow> demo_open w p m kw
      | Enter m \<Rightarrow> (Inr m, w)
      | Exit m \<Rightarrow> (Inr VNone, w)
      | GetAttr obj n \<Rightarrow> (demo_attr w obj n, w)
      | SetAttr obj n v \<Rightarrow> (Inr VNone, w)
      | Print l v \<Rightarrow> (Inr VNone, w)
      | TypeOf v \<Rightarrow> (Inr (VStr ''numpy.ndarray''), w)
      | Imshow a \<Rightarrow> (Inr (VObj 30), w)
      | Read ds i win \<Rightarrow> (if i = 1 then demo_read w ds win else Inl (Exn ''IndexError''), w)
      | Write ds a i \<Rightarrow>
          (case w of Some (p, _) \<Rightarrow> (Inr VNone, Some (p, a))
           | None \<Rightarrow> (Inl (Exn ''RasterioIOError''), w))
      | Box xs \<Rightarrow> (Inr (VObj 20), w)
      | GeoDataFrame gs crs \<Rightarrow> (Inr (VObj 21), w)
      | ToCrs g crs \<Rightarrow> (Inr (VObj 22), w)
      | RasterGeometryMask ds sh crop touched \<Rightarrow>
          (Inr (VTuple [VMask [[False, False, False], [False, False, False]], VObj 12, VObj 13]), w)
      | Vectorize x \<Rightarrow> (Inr (VObj 40), w)
      | Explore g \<Rightarrow> (Inr (VObj 41), w)
      | _ \<Rightarrow> (Inl (Exn ''TypeError''), w))"

text \<open>The variables of the longer notebook at the end of its run on this library.\<close>

definition demo_vars :: nb_vars where
  "demo_vars =
     \<lparr>v_dataset = VObj 1, v_band = VArray demo_band, v_aff = VObj 12, v_window = VObj 13,
      v_band_cropped = VArray demo_cropped,
      v_filtered_band = VArray [[- 200, 5000.5, 7000], [6000, - 200, 5001]],
      v_profile = VDict
        [(''driver'', VStr ''GTiff''), (''dtype'', VStr ''float64''), (''nodata'', VNum (- 200)),
         (''width'', VNum 3), (''height'', VNum 2), (''count'', VNum 1),
         (''crs'', VStr ''ESRI:54009''), (''transform'', VObj 12)],
      v_x_array = VXarray (Xarray [[- 200, 5000, 7000], [6000, - 200, 5001]]
                                  (Some (- 200)) (Some (VObj 12)) (Some ''ESRI: 54009'')),
      v_gdf = VObj 40\<rparr>"

text \<open>The variables of \<^verbatim>\<open>raster.ipynb\<close> at the end of its run on this library.\<close>

definition demo_raster_vars :: raster_vars where
  "demo_raster_vars =
     \<lparr>v_dataset = VObj 1, v_band = VArray demo_band, v_aff = VObj 12, v_window = VObj 13,
      v_band_cropped = VArray demo_cropped\<rparr>"

text \<open>A library in which the calls chosen by \<open>bad\<close> raise.\<close>

definition faulty :: "(call \<Rightarrow> bool) \<Rightarrow> 'w library \<Rightarrow> 'w library" where
  "faulty bad lib c w = (if bad c then (Inl (Exn ''IOError''), w) else lib c w)"

section \<open>Running statements in sequence\<close>

lemma py_bind_InrE:
  assumes "py_bind m f s = (Inr y, s')"
  obtains x s1 where "m s = (Inr x, s1)" "f x s1 = (Inr y, s')"
  using assms by (auto simp add: py_bind_def split: prod.splits sum.splits)

lemma answer_consistent: "answer lib c w = (r, w') \<Longrightarrow> consistent (c, r)"
  by (cases "builtin c") (simp_all add: answer_def consistent_def)

lemma call_cases:
  obtains r w' where "answer lib c (world s) = (r, w')"
    "call lib c s = (r, \<lparr>world = w', trace = trace s @ [(c, r)]\<rparr>)"
  by (cases "answer lib c (world s)") (simp add: call_def)

lemma call_InrE:
  assumes "call lib c s = (Inr v, s')"
  obtains "trace s' = trace s @ [(c, Inr v)]" "consistent (c, Inr v)"
proof -
  obtain r w' where a: "answer lib c (world s) = (r, w')"
    and c: "call lib c s = (r, \<lparr>world = w', trace = trace s @ [(c, r)]\<rparr>)"
    by (rule call_cases)
  from c assms have "r = Inr v" "s' = \<lparr>world = w', trace = trace s @ [(c, r)]\<rparr>" by simp_all
  with a answer_consistent [OF a] that show thesis by simp
qed

lemma py_return_InrE:
  assumes "py_return x s = (Inr y, s')"
  obtains "y = x" "s' = s"
  using assms by (auto simp add: py_return_def)

lemma unpack3_InrE:
  assumes "unpack3 t s = (Inr (a, b, c), s')"
  obtains "s' = s" "t = VTuple [a, b, c] \<or> t = VList [a, b, c]"
  using assms by (auto simp add: unpack3_def py_return_def py_raise_def split: pyval.splits list.splits)

lemma exit_answer: "answer lib (Exit m) w = lib (Exit m) w"
  by (simp add: answer_def builtin_def)

lemma call_exit_truthy:
  assumes "call lib (Exit m) s = (Inr r, s')" "no_suppress lib"
  shows "\<not> truthy r"
proof -
  obtain r0 w' where a: "answer lib (Exit m) (world s) = (r0, w')"
    and c: "call lib (Exit m) s = (r0, \<lparr>world = w', trace = trace s @ [(Exit m, r0)]\<rparr>)"
    by (rule call_cases)
  from c assms(1) have "r0 = Inr r" by simp
  with a have "lib (Exit m) (world s) = (Inr r, w')" by (simp add: exit_answer)
  with assms(2) show ?thesis unfolding no_suppress_def by blast
qed

lemma py_with_InrE:
  assumes "py_with lib mgr body s = (Inr u, s')" "no_suppress lib"
  obtains m s1 v s2 x s3 r where "mgr s = (Inr m, s1)" "call lib (Enter m) s1 = (Inr v, s2)"
    "body v s2 = (Inr x, s3)" "call lib (Exit m) s3 = (Inr r, s')"
proof -
  from assms(1) obtain m s1 where m: "mgr s = (Inr m, s1)"
    and r1: "py_bind (call lib (Enter m)) (\<lambda>v s.
       case body v s of
         (Inr _, s') \<Rightarrow> py_bind (call lib (Exit m)) (\<lambda>_. py_return ()) s'
       | (Inl e, s') \<Rightarrow>
           (case call lib (Exit m) s' of
              (Inl e', s'') \<Rightarrow> (Inl e', s'')
            | (Inr r, s'') \<Rightarrow> if truthy r then (Inr (), s'') else (Inl e, s''))) s1 = (Inr u, s')"
    unfolding py_with_def by (erule py_bind_InrE)
  from r1 obtain v s2 where v: "call lib (Enter m) s1 = (Inr v, s2)"
    and r2: "(case body v s2 of
         (Inr _, s') \<Rightarrow> py_bind (call lib (Exit m)) (\<lambda>_. py_return ()) s'
       | (Inl e, s') \<Rightarrow>
           (case call lib (Exit m) s' of
              (Inl e', s'') \<Rightarrow> (Inl e', s'')
            | (Inr r, s'') \<Rightarrow> if truthy r then (Inr (), s'') else (Inl e, s''))) = (Inr u, s')"
    by (erule py_bind_InrE)
  obtain rb s3 where b: "body v s2 = (rb, s3)" by (cases "body v s2")
  show thesis
  proof (cases rb)
    case (Inr x)
    with r2 b have "py_bind (call lib (Exit m)) (\<lambda>_. py_return ()) s3 = (Inr u, s')" by simp
    then obtain r s4 where e: "call lib (Exit m) s3 = (Inr r, s4)" and "py_return () s4 = (Inr u, s')"
      by (erule py_bind_InrE)
    then have "s4 = s'" by (simp add: py_return_def)
    with m v b Inr e that show thesis by simp
  next
    case (Inl e)
    obtain re s4 where x: "call lib (Exit m) s3 = (re, s4)" by (cases "call lib (Exit m) s3")
    with r2 b Inl have "\<exists>r. re = Inr r \<and> truthy r"
      by (cases re) (simp_all split: if_splits)
    with x call_exit_truthy [OF _ assms(2)] have False by blast
    then show thesis ..
  qed
qed

section \<open>Exceptions are not caught\<close>

lemma failures_append: "failures (xs @ ys) = failures xs @ failures ys"
  by (simp add: failures_def)

lemma failures_single: "failures [(c, r)] = (case r of Inl e \<Rightarrow> [e] | Inr _ \<Rightarrow> [])"
  by (simp add: failures_def)

lemma failures_Nil: "failures [] = []"
  by (simp add: failures_def)

lemma failures_Cons:
  "failures ((c, r) # xs) = (case r of Inl e \<Rightarrow> [e] | Inr _ \<Rightarrow> []) @ failures xs"
  by (simp add: failures_def)

lemma no_failures_dropWhile:
  "failures xs = [] \<Longrightarrow> dropWhile (\<lambda>(c, r). \<not> isl r) (xs @ ys) = dropWhile (\<lambda>(c, r). \<not> isl r) ys"
proof (induction xs)
  case Nil
  then show ?case by simp
next
  case (Cons x xs)
  obtain c r where x: "x = (c, r)" by (cases x)
  with Cons show ?case by (cases r) (simp_all add: failures_Cons)
qed

lemma some_failures_dropWhile:
  "failures xs \<noteq> [] \<Longrightarrow>
     dropWhile (\<lambda>(c, r). \<not> isl r) (xs @ ys) = dropWhile (\<lambda>(c, r). \<not> isl r) xs @ ys \<and>
     dropWhile (\<lambda>(c, r). \<not> isl r) xs \<noteq> []"
proof (induction xs)
  case Nil
  then show ?case by (simp add: failures_Nil)
next
  case (Cons x xs)
  obtain c r where x: "x = (c, r)" by (cases x)
  with Cons show ?case by (cases r) (simp_all add: failures_Cons)
qed

lemma after_failure_none: "failures xs = [] \<Longrightarrow> after_failure (xs @ ys) = after_failure ys"
  by (simp add: after_failure_def no_failures_dropWhile)

lemma after_failure_some:
  "failures xs \<noteq> [] \<Longrightarrow> after_failure (xs @ ys) = after_failure xs @ map fst ys"
  using some_failures_dropWhile [of xs ys] by (simp add: after_failure_def)

lemma after_failure_single: "after_failure [e] = []"
  by (cases e) (simp add: after_failure_def)

lemma after_failure_nil: "after_failure [] = []"
  by (simp add: after_failure_def)

lemma outcome_nil: "outcome r []"
  by (simp add: outcome_def failures_def after_failure_def)

lemma outcome_single: "outcome (raised r) [(c, r)]"
  by (cases r) (simp_all add: outcome_def failures_single after_failure_single raised_def)

lemma outcome_None: "outcome None new \<Longrightarrow> failures new = []"
  by (auto simp add: outcome_def)

lemma outcome_append:
  "outcome None xs \<Longrightarrow> outcome r ys \<Longrightarrow> outcome r (xs @ ys)"
  by (auto simp add: outcome_def failures_append after_failure_none)

lemma propagates_return: "propagates lib (py_return x)"
  by (simp add: propagates_def py_return_def outcome_nil)

lemma propagates_raise: "propagates lib (py_raise e)"
  by (simp add: propagates_def py_raise_def outcome_nil)

lemma propagates_unpack3: "propagates lib (unpack3 t)"
  unfolding unpack3_def
  by (auto simp add: propagates_return propagates_raise split: pyval.splits list.splits)

lemma propagates_call: "propagates lib (call lib c)"
  unfolding propagates_def
proof (intro allI impI)
  fix s r s' assume a: "call lib c s = (r, s')"
  obtain r0 w' where "call lib c s = (r0, \<lparr>world = w', trace = trace s @ [(c, r0)]\<rparr>)"
    by (rule call_cases [of lib c s])
  with a have "trace s' = trace s @ [(c, r)]" by auto
  then show "\<exists>new. trace s' = trace s @ new \<and> (no_suppress lib \<longrightarrow> outcome (raised r) new)"
    using outcome_single by blast
qed

lemma propagates_bind:
  assumes "propagates lib m" "\<And>x. propagates lib (f x)"
  shows "propagates lib (py_bind m f)"
  unfolding propagates_def
proof (intro allI impI)
  fix s r s' assume a: "py_bind m f s = (r, s')"
  obtain r1 s1 where m: "m s = (r1, s1)" by (cases "m s")
  with assms(1) obtain new1 where n1: "trace s1 = trace s @ new1"
    and o1: "no_suppress lib \<longrightarrow> outcome (raised r1) new1"
    unfolding propagates_def by blast
  show "\<exists>new. trace s' = trace s @ new \<and> (no_suppress lib \<longrightarrow> outcome (raised r) new)"
  proof (cases r1)
    case (Inl e)
    with a m have "r = Inl e" "s' = s1" by (simp_all add: py_bind_def)
    with n1 o1 Inl show ?thesis by (auto simp add: raised_def)
  next
    case (Inr x)
    with a m have "f x s1 = (r, s')" by (simp add: py_bind_def)
    with assms(2) obtain new2 where n2: "trace s' = trace s1 @ new2"
      and o2: "no_suppress lib \<longrightarrow> outcome (raised r) new2"
      unfolding propagates_def by blast
    from o1 Inr have "no_suppress lib \<longrightarrow> outcome None new1" by (simp add: raised_def)
    with o2 have "no_suppress lib \<longrightarrow> outcome (raised r) (new1 @ new2)"
      by (auto intro: outcome_append)
    with n1 n2 show ?thesis by auto
  qed
qed

lemma propagates_split:
  assumes "\<And>a b. propagates lib (f a b)"
  shows "propagates lib (case p of (a, b) \<Rightarrow> f a b)"
  using assms by (cases p) simp

lemma propagates_with:
  assumes "propagates lib mgr" "\<And>v. propagates lib (body v)"
  shows "propagates lib (py_with lib mgr body)"
proof -
  have inner: "propagates lib (\<lambda>s.
       case body v s of
         (Inr _, s') \<Rightarrow> py_bind (call lib (Exit m)) (\<lambda>_. py_return ()) s'
       | (Inl e, s') \<Rightarrow>
           (case call lib (Exit m) s' of
              (Inl e', s'') \<Rightarrow> (Inl e', s'')
            | (Inr r, s'') \<Rightarrow> if truthy r then (Inr (), s'') else (Inl e, s'')))" for m v
    unfolding propagates_def
  proof (intro allI impI)
    fix s and r :: "exn + unit" and s'
    assume a: "(case body v s of
         (Inr _, s') \<Rightarrow> py_bind (call lib (Exit m)) (\<lambda>_. py_return ()) s'
       | (Inl e, s') \<Rightarrow>
           (case call lib (Exit m) s' of
              (Inl e', s'') \<Rightarrow> (Inl e', s'')
            | (Inr r, s'') \<Rightarrow> if truthy r then (Inr (), s'') else (Inl e, s''))) = (r, s')"
    obtain rb s3 where b: "body v s = (rb, s3)" by (cases "body v s")
    with assms(2) obtain new1 where n1: "trace s3 = trace s @ new1"
      and o1: "no_suppress lib \<longrightarrow> outcome (raised rb) new1"
      unfolding propagates_def by blast
    obtain rx s4 where x: "call lib (Exit m) s3 = (rx, s4)" by (cases "call lib (Exit m) s3")
    obtain r0 w' where "call lib (Exit m) s3 = (r0, \<lparr>world = w', trace = trace s3 @ [(Exit m, r0)]\<rparr>)"
      by (rule call_cases [of lib "Exit m" s3])
    with x have n2: "trace s4 = trace s3 @ [(Exit m, rx)]" by auto
    show "\<exists>new. trace s' = trace s @ new \<and> (no_suppress lib \<longrightarrow> outcome (raised r) new)"
    proof (cases rb)
      case (Inr y)
      with a b x have "r = map_sum id (\<lambda>_. ()) rx" "s' = s4"
        by (cases rx; simp add: py_bind_def py_return_def)+
      then have rr: "raised r = raised rx" by (cases rx) (simp_all add: raised_def)
      from o1 Inr have "no_suppress lib \<longrightarrow> outcome None new1" by (simp add: raised_def)
      then have "no_suppress lib \<longrightarrow> outcome (raised r) (new1 @ [(Exit m, rx)])"
        using outcome_append [of new1 "raised rx" "[(Exit m, rx)]"] outcome_single [of rx "Exit m"] rr
        by auto
      with n1 n2 \<open>s' = s4\<close> show ?thesis by auto
    next
      case (Inl e)
      have s': "trace s' = trace s @ new1 @ [(Exit m, rx)]"
        using a b x Inl n1 n2 by (cases rx) (auto split: if_splits)
      have "outcome (raised r) (new1 @ [(Exit m, rx)])" if ns: "no_suppress lib"
      proof (cases rx)
        case ex: (Inl e')
        with a b x Inl have r: "r = Inl e'" by simp
        show ?thesis
        proof (cases "failures new1 = []")
          case True
          then show ?thesis using ex r
            by (simp add: outcome_def failures_append failures_single after_failure_none
                after_failure_single raised_def)
        next
          case False
          moreover from o1 ns have "list_all is_exit (after_failure new1)" by (simp add: outcome_def)
          ultimately show ?thesis using ex r
            by (simp add: outcome_def failures_append failures_single after_failure_some
                raised_def is_exit_def)
        qed
      next
        case ex: (Inr v')
        with x call_exit_truthy [OF _ ns] have "\<not> truthy v'" by blast
        with a b x Inl ex have r: "r = Inl e" by simp
        show ?thesis
        proof (cases "failures new1 = []")
          case True
          then show ?thesis using ex r
            by (simp add: outcome_def failures_append failures_single after_failure_none
                after_failure_single raised_def)
        next
          case False
          moreover from o1 ns Inl have "outcome (Some e) new1" by (simp add: raised_def)
          ultimately show ?thesis using ex r
            by (simp add: outcome_def failures_append failures_single after_failure_some
                raised_def is_exit_def)
        qed
      qed
      with s' show ?thesis by blast
    qed
  qed
  show ?thesis
    unfolding py_with_def
    by (intro propagates_bind assms(1) propagates_call inner)
qed

lemma propagates_raster_notebook: "propagates lib (raster_notebook lib)"
  unfolding raster_notebook_def raster_open_def raster_properties_def raster_band_def
    raster_crop_def
  by (intro propagates_bind propagates_call propagates_return propagates_with
      propagates_unpack3 propagates_split)

lemma propagates_notebook: "propagates lib (notebook lib)"
  unfolding notebook_def nb_open_def nb_properties_def nb_band_def nb_crop_def nb_filter_def
    nb_reread_def nb_vectorize_def
  by (intro propagates_bind propagates_call propagates_return propagates_with
      propagates_unpack3 propagates_split)

section \<open>The calls of a run that succeeds\<close>

text \<open>
  A cell that ends without an exception has made exactly the calls of its source, in
  order, each on the results of the calls before it.
\<close>

lemma py_bind_pair_InrE:
  assumes "py_bind m (\<lambda>(a, b). f a b) s = (Inr y, s')"
  obtains a b s1 where "m s = (Inr (a, b), s1)" "f a b s1 = (Inr y, s')"
  using assms by (elim py_bind_InrE) (simp split: prod.splits)

lemma py_bind_triple_InrE:
  assumes "py_bind m (\<lambda>(a, b, c). f a b c) s = (Inr y, s')"
  obtains a b c s1 where "m s = (Inr (a, b, c), s1)" "f a b c s1 = (Inr y, s')"
  using assms by (elim py_bind_InrE) (simp split: prod.splits)

lemma py_with_run:
  assumes "no_suppress lib" "py_with lib mgr body s = (Inr u, s')"
  obtains m s1 v s2 x s3 r where "mgr s = (Inr m, s1)" "call lib (Enter m) s1 = (Inr v, s2)"
    "body v s2 = (Inr x, s3)" "call lib (Exit m) s3 = (Inr r, s')"
  using assms(2) assms(1) by (rule py_with_InrE)

lemma nb_open_run:
  assumes "nb_open lib s = (Inr ds, s')"
  obtains (opened) path p where "trace s' = trace s @
      [(Here ''data'', Inr path),
       (PathJoin path ''GHS_POP_E2020_GLOBE_R2023A_54009_1000_V1_0_R3_C18.tif'', Inr p),
       (RioOpen p ''r'' (VDict []), Inr ds)]"
  using assms unfolding nb_open_def
  apply (elim py_bind_InrE call_InrE)
  apply (rule that)
  apply simp
  done

lemma nb_properties_run:
  assumes "nb_properties lib ds s = (Inr u, s')"
  obtains (props) v1 v2 v3 v4 v5 v6 q1 q2 q3 q4 q5 q6 where "trace s' = trace s @
      [(GetAttr ds ''count'', Inr v1), (Print ''Number of layers: '' v1, Inr q1),
       (GetAttr ds ''width'', Inr v2), (Print ''Number of columns: '' v2, Inr q2),
       (GetAttr ds ''height'', Inr v3), (Print ''Number of rows: '' v3, Inr q3),
       (GetAttr ds ''crs'', Inr v4), (Print ''CRS: '' v4, Inr q4),
       (GetAttr ds ''transform'', Inr v5), (Print (''Affine transform:'' @ [CHR 0x0A]) v5, Inr q5),
       (GetAttr ds ''bounds'', Inr v6), (Print ''Boundaries: '' v6, Inr q6)]"
  using assms unfolding nb_properties_def
  apply (elim py_bind_InrE call_InrE py_return_InrE)
  apply (rule that)
  apply simp
  done

lemma nb_band_run:
  assumes "nb_band lib ds s = (Inr band, s')"
  obtains (band) ty q7 q8 q9 where "trace s' = trace s @
      [(Read ds 1 None, Inr band), (Print [] band, Inr q7), (TypeOf band, Inr ty),
       (Print [] ty, Inr q8), (Imshow band, Inr q9)]"
  using assms unfolding nb_band_def
  apply (elim py_bind_InrE call_InrE py_return_InrE)
  apply (rule that)
  apply simp
  done

lemma nb_crop_run:
  assumes "nb_crop lib ds s = (Inr (aff, window, bc), s')"
  obtains (crop) shapes t m b g gdf0 gs q10 where "trace s' = trace s @
      [(Box bbox, Inr b), (GeoDataFrame [b] ''EPSG: 4326'', Inr g),
       (ToCrs g ''ESRI: 54009'', Inr gdf0), (GetAttr gdf0 ''geometry'', Inr gs),
       (GetAttr gs ''values'', Inr shapes),
       (RasterGeometryMask ds shapes True True, Inr t),
       (Read ds 1 (Some window), Inr bc), (Imshow bc, Inr q10)]"
      "t = VTuple [m, aff, window] \<or> t = VList [m, aff, window]"
  using assms unfolding nb_crop_def
  apply (elim py_bind_triple_InrE py_bind_InrE call_InrE py_return_InrE unpack3_InrE)
  apply (rule that)
   apply simp
  apply simp
  done

lemma nb_filter_run:
  assumes "no_suppress lib" "nb_filter lib ds aff bc s = (Inr (fb, prof'), s')"
  obtains (filt) prof h w wpath mask wr wv sh0 sh1 q11 q12 q13 q14 where "trace s' = trace s @
      [(Gt bc 5000, Inr mask), (Where mask bc (- 200), Inr fb), (Imshow fb, Inr q11),
       (GetAttr ds ''profile'', Inr prof), (Print [] prof, Inr q12),
       (GetAttr fb ''shape'', Inr sh0), (GetItem sh0 0, Inr h),
       (GetAttr fb ''shape'', Inr sh1), (GetItem sh1 1, Inr w),
       (DictUpdate prof [(''transform'', aff), (''height'', h), (''width'', w)], Inr prof'),
       (Here ''data/modified_raster.tif'', Inr wpath), (RioOpen wpath ''w'' prof', Inr wr),
       (Enter wr, Inr wv), (Write wv fb 1, Inr q13), (Exit wr, Inr q14)]"
      "consistent (Gt bc 5000, Inr mask)" "consistent (Where mask bc (- 200), Inr fb)"
      "consistent (GetAttr fb ''shape'', Inr sh0)" "consistent (GetItem sh0 0, Inr h)"
      "consistent (GetAttr fb ''shape'', Inr sh1)" "consistent (GetItem sh1 1, Inr w)"
      "consistent (DictUpdate prof [(''transform'', aff), (''height'', h), (''width'', w)], Inr prof')"
  using assms(2) unfolding nb_filter_def
  apply (elim py_bind_InrE call_InrE py_with_run [OF assms(1)] py_return_InrE)
  apply (rule that)
  apply simp_all
  done

lemma nb_reread_run:
  assumes "no_suppress lib" "nb_reread lib s = (Inr u, s')"
  obtains (reread) rpath rd rv d pr q15 q16 q17 where "trace s' = trace s @
      [(Here ''data/modified_raster.tif'', Inr rpath), (RioOpen rpath ''r'' (VDict []), Inr rd),
       (Enter rd, Inr rv), (Read rv 1 None, Inr d), (GetAttr rv ''profile'', Inr pr),
       (Print [] pr, Inr q15), (Imshow d, Inr q16), (Exit rd, Inr q17)]"
  using assms(2) unfolding nb_reread_def
  apply (elim py_bind_InrE call_InrE py_with_run [OF assms(1)] py_return_InrE)
  apply (rule that)
  apply simp
  done

lemma nb_vectorize_run:
  assumes "nb_vectorize lib fb aff s = (Inr (xa, gdf), s')"
  obtains (vect) x0 x1 x2 x3 q18 q19 q20 where "trace s' = trace s @
      [(DataArray fb, Inr x0), (Astype x0 ''int32'', Inr x1), (WriteNodata x1 (- 200), Inr x2),
       (WriteTransform x2 aff, Inr x3), (SetCrs x3 ''ESRI: 54009'' True, Inr xa),
       (Print [] xa, Inr q18), (Vectorize xa, Inr gdf),
       (SetAttr gdf ''columns'' (VList [VStr ''label'', VStr ''geometry'']), Inr q19),
       (Explore gdf, Inr q20)]"
      "consistent (DataArray fb, Inr x0)" "consistent (Astype x0 ''int32'', Inr x1)"
      "consistent (WriteNodata x1 (- 200), Inr x2)" "consistent (WriteTransform x2 aff, Inr x3)"
      "consistent (SetCrs x3 ''ESRI: 54009'' True, Inr xa)"
  using assms unfolding nb_vectorize_def
  apply (elim py_bind_InrE call_InrE py_return_InrE)
  apply (rule that)
  apply simp_all
  done

lemma notebook_cells:
  assumes "notebook lib s = (Inr vars, s')"
  obtains s1 s2 s3 s4 s5 s6 where
    "nb_open lib s = (Inr (v_dataset vars), s1)"
    "nb_properties lib (v_dataset vars) s1 = (Inr (), s2)"
    "nb_band lib (v_dataset vars) s2 = (Inr (v_band vars), s3)"
    "nb_crop lib (v_dataset vars) s3 = (Inr (v_aff vars, v_window vars, v_band_cropped vars), s4)"
    "nb_filter lib (v_dataset vars) (v_aff vars) (v_band_cropped vars) s4 =
       (Inr (v_filtered_band vars, v_profile vars), s5)"
    "nb_reread lib s5 = (Inr (), s6)"
    "nb_vectorize lib (v_filtered_band vars) (v_aff vars) s6 = (Inr (v_x_array vars, v_gdf vars), s')"
proof -
  from assms obtain ds s1 where c1: "nb_open lib s = (Inr ds, s1)"
    and r1: "py_bind (nb_properties lib ds) (\<lambda>_.
     py_bind (nb_band lib ds) (\<lambda>band.
     py_bind (nb_crop lib ds) (\<lambda>(aff, window, band_cropped).
     py_bind (nb_filter lib ds aff band_cropped) (\<lambda>(fb, profile).
     py_bind (nb_reread lib) (\<lambda>_.
     py_bind (nb_vectorize lib fb aff) (\<lambda>(xa, gdf).
     py_return \<lparr>v_dataset = ds, v_band = band, v_aff = aff, v_window = window,
                v_band_cropped = band_cropped, v_filtered_band = fb, v_profile = profile,
                v_x_array = xa, v_gdf = gdf\<rparr>)))))) s1 = (Inr vars, s')"
    unfolding notebook_def by (erule py_bind_InrE)
  from r1 obtain u s2 where c2: "nb_properties lib ds s1 = (Inr u, s2)"
    and r2: "py_bind (nb_band lib ds) (\<lambda>band.
     py_bind (nb_crop lib ds) (\<lambda>(aff, window, band_cropped).
     py_bind (nb_filter lib ds aff band_cropped) (\<lambda>(fb, profile).
     py_bind (nb_reread lib) (\<lambda>_.
     py_bind (nb_vectorize lib fb aff) (\<lambda>(xa, gdf).
     py_return \<lparr>v_dataset = ds, v_band = band, v_aff = aff, v_window = window,
                v_band_cropped = band_cropped, v_filtered_band = fb, v_profile = profile,
                v_x_array = xa, v_gdf = gdf\<rparr>))))) s2 = (Inr vars, s')"
    by (erule py_bind_InrE)
  from r2 obtain band s3 where c3: "nb_band lib ds s2 = (Inr band, s3)"
    and r3: "py_bind (nb_crop lib ds) (\<lambda>(aff, window, band_cropped).
     py_bind (nb_filter lib ds aff band_cropped) (\<lambda>(fb, profile).
     py_bind (nb_reread lib) (\<lambda>_.
     py_bind (nb_vectorize lib fb aff) (\<lambda>(xa, gdf).
     py_return \<lparr>v_dataset = ds, v_band = band, v_aff = aff, v_window = window,
                v_band_cropped = band_cropped, v_filtered_band = fb, v_profile = profile,
                v_x_array = xa, v_gdf = gdf\<rparr>)))) s3 = (Inr vars, s')"
    by (erule py_bind_InrE)
  from r3 obtain aff window bc s4 where c4: "nb_crop lib ds s3 = (Inr (aff, window, bc), s4)"
    and r4: "py_bind (nb_filter lib ds aff bc) (\<lambda>(fb, profile).
     py_bind (nb_reread lib) (\<lambda>_.
     py_bind (nb_vectorize lib fb aff) (\<lambda>(xa, gdf).
     py_return \<lparr>v_dataset = ds, v_band = band, v_aff = aff, v_window = window,
                v_band_cropped = bc, v_filtered_band = fb, v_profile = profile,
                v_x_array = xa, v_gdf = gdf\<rparr>))) s4 = (Inr vars, s')"
    by (erule py_bind_triple_InrE)
  from r4 obtain fb prof s5 where c5: "nb_filter lib ds aff bc s4 = (Inr (fb, prof), s5)"
    and r5: "py_bind (nb_reread lib) (\<lambda>_.
     py_bind (nb_vectorize lib fb aff) (\<lambda>(xa, gdf).
     py_return \<lparr>v_dataset = ds, v_band = band, v_aff = aff, v_window = window,
                v_band_cropped = bc, v_filtered_band = fb, v_profile = prof,
                v_x_array = xa, v_gdf = gdf\<rparr>)) s5 = (Inr vars, s')"
    by (erule py_bind_pair_InrE)
  from r5 obtain u' s6 where c6: "nb_reread lib s5 = (Inr u', s6)"
    and r6: "py_bind (nb_vectorize lib fb aff) (\<lambda>(xa, gdf).
     py_return \<lparr>v_dataset = ds, v_band = band, v_aff = aff, v_window = window,
                v_band_cropped = bc, v_filtered_band = fb, v_profile = prof,
                v_x_array = xa, v_gdf = gdf\<rparr>) s6 = (Inr vars, s')"
    by (erule py_bind_InrE)
  from r6 obtain xa gdf s7 where c7: "nb_vectorize lib fb aff s6 = (Inr (xa, gdf), s7)"
    and r7: "py_return \<lparr>v_dataset = ds, v_band = band, v_aff = aff, v_window = window,
                v_band_cropped = bc, v_filtered_band = fb, v_profile = prof,
                v_x_array = xa, v_gdf = gdf\<rparr> s7 = (Inr vars, s')"
    by (erule py_bind_pair_InrE)
  from r7 have v: "vars = \<lparr>v_dataset = ds, v_band = band, v_aff = aff, v_window = window,
                v_band_cropped = bc, v_filtered_band = fb, v_profile = prof,
                v_x_array = xa, v_gdf = gdf\<rparr>" and "s7 = s'"
    by (simp_all add: py_return_def)
  with c1 c2 c3 c4 c5 c6 c7 show thesis
    by (intro that [of s1 s2 s3 s4 s5 s6]) simp_all
qed


lemma notebook_run:
  assumes "no_suppress lib" "notebook lib s = (Inr vars, s')"
  obtains (run) path p v1 q1 v2 q2 v3 q3 v4 q4 v5 q5 v6 q6 q7 ty q8 q9
      b g gdf0 gs shapes t q10 mask q11 prof q12 sh0 h sh1 w wpath wr wv
      q13 q14 rpath rd rv d pr q15 q16 q17 x0 x1 x2 x3 q18 q19 q20 m
  where
    "trace s' = trace s @
      [(Here ''data'', Inr path),
       (PathJoin path ''GHS_POP_E2020_GLOBE_R2023A_54009_1000_V1_0_R3_C18.tif'', Inr p),
       (RioOpen p ''r'' (VDict []), Inr (v_dataset vars)),
       (GetAttr (v_dataset vars) ''count'', Inr v1), (Print ''Number of layers: '' v1, Inr q1),
       (GetAttr (v_dataset vars) ''width'', Inr v2), (Print ''Number of columns: '' v2, Inr q2),
       (GetAttr (v_dataset vars) ''height'', Inr v3), (Print ''Number of rows: '' v3, Inr q3),
       (GetAttr (v_dataset vars) ''crs'', Inr v4), (Print ''CRS: '' v4, Inr q4),
       (GetAttr (v_dataset vars) ''transform'', Inr v5),
       (Print (''Affine transform:'' @ [CHR 0x0A]) v5, Inr q5),
       (GetAttr (v_dataset vars) ''bounds'', Inr v6), (Print ''Boundaries: '' v6, Inr q6),
       (Read (v_dataset vars) 1 None, Inr (v_band vars)), (Print [] (v_band vars), Inr q7),
       (TypeOf (v_band vars), Inr ty), (Print [] ty, Inr q8), (Imshow (v_band vars), Inr q9),
       (Box bbox, Inr b), (GeoDataFrame [b] ''EPSG: 4326'', Inr g),
       (ToCrs g ''ESRI: 54009'', Inr gdf0), (GetAttr gdf0 ''geometry'', Inr gs),
       (GetAttr gs ''values'', Inr shapes),
       (RasterGeometryMask (v_dataset vars) shapes True True, Inr t),
       (Read (v_dataset vars) 1 (Some (v_window vars)), Inr (v_band_cropped vars)),
       (Imshow (v_band_cropped vars), Inr q10),
       (Gt (v_band_cropped vars) 5000, Inr mask),
       (Where mask (v_band_cropped vars) (- 200), Inr (v_filtered_band vars)),
       (Imshow (v_filtered_band vars), Inr q11),
       (GetAttr (v_dataset vars) ''profile'', Inr prof), (Print [] prof, Inr q12),
       (GetAttr (v_filtered_band vars) ''shape'', Inr sh0), (GetItem sh0 0, Inr h),
       (GetAttr (v_filtered_band vars) ''shape'', Inr sh1), (GetItem sh1 1, Inr w),
       (DictUpdate prof [(''transform'', v_aff vars), (''height'', h), (''width'', w)],
        Inr (v_profile vars)),
       (Here ''data/modified_raster.tif'', Inr wpath),
       (RioOpen wpath ''w'' (v_profile vars), Inr wr),
       (Enter wr, Inr wv), (Write wv (v_filtered_band vars) 1, Inr q13), (Exit wr, Inr q14),
       (Here ''data/modified_raster.tif'', Inr rpath), (RioOpen rpath ''r'' (VDict []), Inr rd),
       (Enter rd, Inr rv), (Read rv 1 None, Inr d), (GetAttr rv ''profile'', Inr pr),
       (Print [] pr, Inr q15), (Imshow d, Inr q16), (Exit rd, Inr q17),
       (DataArray (v_filtered_band vars), Inr x0), (Astype x0 ''int32'', Inr x1),
       (WriteNodata x1 (- 200), Inr x2), (WriteTransform x2 (v_aff vars), Inr x3),
       (SetCrs x3 ''ESRI: 54009'' True, Inr (v_x_array vars)),
       (Print [] (v_x_array vars), Inr q18), (Vectorize (v_x_array vars), Inr (v_gdf vars)),
       (SetAttr (v_gdf vars) ''columns'' (VList [VStr ''label'', VStr ''geometry'']), Inr q19),
       (Explore (v_gdf vars), Inr q20)]"
    "t = VTuple [m, v_aff vars, v_window vars] \<or> t = VList [m, v_aff vars, v_window vars]"
    "consistent (Gt (v_band_cropped vars) 5000, Inr mask)"
    "consistent (Where mask (v_band_cropped vars) (- 200), Inr (v_filtered_band vars))"
    "consistent (GetAttr (v_filtered_band vars) ''shape'', Inr sh0)"
    "consistent (GetItem sh0 0, Inr h)"
    "consistent (GetAttr (v_filtered_band vars) ''shape'', Inr sh1)"
    "consistent (GetItem sh1 1, Inr w)"
    "consistent (DictUpdate prof [(''transform'', v_aff vars), (''height'', h), (''width'', w)],
                 Inr (v_profile vars))"
    "consistent (DataArray (v_filtered_band vars), Inr x0)"
    "consistent (Astype x0 ''int32'', Inr x1)"
    "consistent (WriteNodata x1 (- 200), Inr x2)"
    "consistent (WriteTransform x2 (v_aff vars), Inr x3)"
    "consistent (SetCrs x3 ''ESRI: 54009'' True, Inr (v_x_array vars))"
proof -
  from assms(2) obtain s1 s2 s3 s4 s5 s6 where
    c1: "nb_open lib s = (Inr (v_dataset vars), s1)" and
    c2: "nb_properties lib (v_dataset vars) s1 = (Inr (), s2)" and
    c3: "nb_band lib (v_dataset vars) s2 = (Inr (v_band vars), s3)" and
    c4: "nb_crop lib (v_dataset vars) s3 =
           (Inr (v_aff vars, v_window vars, v_band_cropped vars), s4)" and
    c5: "nb_filter lib (v_dataset vars) (v_aff vars) (v_band_cropped vars) s4 =
           (Inr (v_filtered_band vars, v_profile vars), s5)" and
    c6: "nb_reread lib s5 = (Inr (), s6)" and
    c7: "nb_vectorize lib (v_filtered_band vars) (v_aff vars) s6 =
           (Inr (v_x_array vars, v_gdf vars), s')"
    by (rule notebook_cells)
  from c1 show thesis
  proof (cases rule: nb_open_run)
    case (opened path p)
    from c2 show thesis
    proof (cases rule: nb_properties_run)
      case (props v1 v2 v3 v4 v5 v6 q1 q2 q3 q4 q5 q6)
      from c3 show thesis
      proof (cases rule: nb_band_run)
        case (band ty q7 q8 q9)
        from c4 show thesis
        proof (cases rule: nb_crop_run)
          case (crop shapes t m b g gdf0 gs q10)
          from assms(1) c5 show thesis
          proof (cases rule: nb_filter_run)
            case (filt prof h w wpath mask wr wv sh0 sh1 q11 q12 q13 q14)
            from assms(1) c6 show thesis
            proof (cases rule: nb_reread_run)
              case (reread rpath rd rv d pr q15 q16 q17)
              from c7 show thesis
              proof (cases rule: nb_vectorize_run)
                case (vect x0 x1 x2 x3 q18 q19 q20)
                show thesis
                  apply (rule that [of path p v1 q1 v2 q2 v3 q3 v4 q4 v5 q5 v6 q6 q7 ty q8 q9
                        b g gdf0 gs shapes t q10 mask q11 prof q12 sh0 h sh1 w wpath wr wv
                        q13 q14 rpath rd rv d pr q15 q16 q17 x0 x1 x2 x3 q18 q19 q20 m])
                               apply (insert opened props band crop filt reread vect)
                               apply simp_all
                  done
              qed
            qed
          qed
        qed
      qed
    qed
  qed
qed

lemma raster_cells_eq:
  "raster_open lib = nb_open lib"
  "raster_properties lib ds = nb_properties lib ds"
  "raster_band lib ds = nb_band lib ds"
  "raster_crop lib ds = nb_crop lib ds"
  by (simp_all add: raster_open_def nb_open_def raster_properties_def nb_properties_def
      raster_band_def nb_band_def raster_crop_def nb_crop_def)

lemma raster_notebook_cells:
  assumes "raster_notebook lib s = (Inr rv, s')"
  obtains s1 s2 s3 where
    "nb_open lib s = (Inr (v_dataset rv), s1)"
    "nb_properties lib (v_dataset rv) s1 = (Inr (), s2)"
    "nb_band lib (v_dataset rv) s2 = (Inr (v_band rv), s3)"
    "nb_crop lib (v_dataset rv) s3 = (Inr (v_aff rv, v_window rv, v_band_cropped rv), s')"
proof -
  from assms obtain ds s1 where c1: "nb_open lib s = (Inr ds, s1)"
    and r1: "py_bind (nb_properties lib ds) (\<lambda>_.
     py_bind (nb_band lib ds) (\<lambda>band.
     py_bind (nb_crop lib ds) (\<lambda>(aff, window, band_cropped).
     py_return \<lparr>v_dataset = ds, v_band = band, v_aff = aff, v_window = window,
                v_band_cropped = band_cropped\<rparr>))) s1 = (Inr rv, s')"
    unfolding raster_notebook_def raster_cells_eq by (erule py_bind_InrE)
  from r1 obtain u s2 where c2: "nb_properties lib ds s1 = (Inr u, s2)"
    and r2: "py_bind (nb_band lib ds) (\<lambda>band.
     py_bind (nb_crop lib ds) (\<lambda>(aff, window, band_cropped).
     py_return \<lparr>v_dataset = ds, v_band = band, v_aff = aff, v_window = window,
                v_band_cropped = band_cropped\<rparr>)) s2 = (Inr rv, s')"
    by (erule py_bind_InrE)
  from r2 obtain band s3 where c3: "nb_band lib ds s2 = (Inr band, s3)"
    and r3: "py_bind (nb_crop lib ds) (\<lambda>(aff, window, band_cropped).
     py_return \<lparr>v_dataset = ds, v_band = band, v_aff = aff, v_window = window,
                v_band_cropped = band_cropped\<rparr>) s3 = (Inr rv, s')"
    by (erule py_bind_InrE)
  from r3 obtain aff window bc s4 where c4: "nb_crop lib ds s3 = (Inr (aff, window, bc), s4)"
    and r4: "py_return \<lparr>v_dataset = ds, v_band = band, v_aff = aff, v_window = window,
                v_band_cropped = bc\<rparr> s4 = (Inr rv, s')"
    by (erule py_bind_triple_InrE)
  from r4 have "rv = \<lparr>v_dataset = ds, v_band = band, v_aff = aff, v_window = window,
                v_band_cropped = bc\<rparr>" and "s4 = s'"
    by (simp_all add: py_return_def)
  with c1 c2 c3 c4 show thesis
    by (intro that [of s1 s2 s3]) simp_all
qed

lemma raster_notebook_run:
  assumes "raster_notebook lib s = (Inr rv, s')"
  obtains (run) b g gdf0 gs shapes t m path p v1 q1 v2 q2 v3 q3 v4 q4 v5 q5 v6 q6 q7 ty q8 q9 q10
  where
    "trace s' = trace s @
      [(Here ''data'', Inr path),
       (PathJoin path ''GHS_POP_E2020_GLOBE_R2023A_54009_1000_V1_0_R3_C18.tif'', Inr p),
       (RioOpen p ''r'' (VDict []), Inr (v_dataset rv)),
       (GetAttr (v_dataset rv) ''count'', Inr v1), (Print ''Number of layers: '' v1, Inr q1),
       (GetAttr (v_dataset rv) ''width'', Inr v2), (Print ''Number of columns: '' v2, Inr q2),
       (GetAttr (v_dataset rv) ''height'', Inr v3), (Print ''Number of rows: '' v3, Inr q3),
       (GetAttr (v_dataset rv) ''crs'', Inr v4), (Print ''CRS: '' v4, Inr q4),
       (GetAttr (v_dataset rv) ''transform'', Inr v5),
       (Print (''Affine transform:'' @ [CHR 0x0A]) v5, Inr q5),
       (GetAttr (v_dataset rv) ''bounds'', Inr v6), (Print ''Boundaries: '' v6, Inr q6),
       (Read (v_dataset rv) 1 None, Inr (v_band rv)), (Print [] (v_band rv), Inr q7),
       (TypeOf (v_band rv), Inr ty), (Print [] ty, Inr q8), (Imshow (v_band rv), Inr q9),
       (Box bbox, Inr b), (GeoDataFrame [b] ''EPSG: 4326'', Inr g),
       (ToCrs g ''ESRI: 54009'', Inr gdf0), (GetAttr gdf0 ''geometry'', Inr gs),
       (GetAttr gs ''values'', Inr shapes),
       (RasterGeometryMask (v_dataset rv) shapes True True, Inr t),
       (Read (v_dataset rv) 1 (Some (v_window rv)), Inr (v_band_cropped rv)),
       (Imshow (v_band_cropped rv), Inr q10)]"
    "t = VTuple [m, v_aff rv, v_window rv] \<or> t = VList [m, v_aff rv, v_window rv]"
proof -
  from assms obtain s1 s2 s3 where
    c1: "nb_open lib s = (Inr (v_dataset rv), s1)" and
    c2: "nb_properties lib (v_dataset rv) s1 = (Inr (), s2)" and
    c3: "nb_band lib (v_dataset rv) s2 = (Inr (v_band rv), s3)" and
    c4: "nb_crop lib (v_dataset rv) s3 = (Inr (v_aff rv, v_window rv, v_band_cropped rv), s')"
    by (rule raster_notebook_cells)
  from c1 show thesis
  proof (cases rule: nb_open_run)
    case (opened path p)
    from c2 show thesis
    proof (cases rule: nb_properties_run)
      case (props v1 v2 v3 v4 v5 v6 q1 q2 q3 q4 q5 q6)
      from c3 show thesis
      proof (cases rule: nb_band_run)
        case (band ty q7 q8 q9)
        from c4 show thesis
        proof (cases rule: nb_crop_run)
          case (crop shapes t m b g gdf0 gs q10)
          show thesis
            apply (rule that [of path p v1 q1 v2 q2 v3 q3 v4 q4 v5 q5 v6 q6 q7 ty q8 q9
                  b g gdf0 gs shapes t q10 m])
             apply (insert opened props band crop)
             apply simp_all
            done
        qed
      qed
    qed
  qed
qed

section \<open>Runs on the library in memory\<close>

lemmas run_defs =
  notebook_def nb_open_def nb_properties_def nb_band_def nb_crop_def nb_filter_def
  nb_reread_def nb_vectorize_def raster_notebook_def raster_open_def raster_properties_def
  raster_band_def raster_crop_def py_bind_def py_return_def py_raise_def py_with_def call_def
  answer_def builtin_def unpack3_def init_def truthy_def bbox_def

lemmas demo_defs =
  demo_lib_def demo_attr_def demo_open_def demo_read_def demo_band_def demo_cropped_def
  demo_profile_def faulty_def is_write_def is_mask_call_def

lemmas array_defs =
  gt_def np_where_def shape_def dict_update_def data_array_def astype_def astype_int32_def
  trunc_def write_nodata_def write_transform_def set_crs_def

lemma demo_run:
  "notebook demo_lib (init None) = (Inr demo_vars, snd (notebook demo_lib (init None)))"
proof -
  have "fst (notebook demo_lib (init None)) = Inr demo_vars"
    by (simp add: run_defs demo_defs array_defs demo_vars_def)
  then show ?thesis by (simp add: prod_eq_iff)
qed

lemma demo_raster_run:
  "raster_notebook demo_lib (init None) =
     (Inr demo_raster_vars, snd (raster_notebook demo_lib (init None)))"
proof -
  have "fst (raster_notebook demo_lib (init None)) = Inr demo_raster_vars"
    by (simp add: run_defs demo_defs array_defs demo_raster_vars_def)
  then show ?thesis by (simp add: prod_eq_iff)
qed

lemma no_suppress_faulty_demo: "no_suppress (faulty bad demo_lib)"
  by (simp add: no_suppress_def faulty_def demo_lib_def truthy_def)

lemma no_suppress_demo: "no_suppress demo_lib"
  by (simp add: no_suppress_def demo_lib_def truthy_def)

lemma demo_profile_read:
  "(GetAttr (v_dataset demo_vars) ''profile'', Inr (VDict demo_profile))
     \<in> set (trace (snd (notebook demo_lib (init None))))"
  by (simp add: run_defs demo_defs array_defs demo_vars_def)

section \<open>The threshold filter\<close>

lemma where_gt_row:
  "map2 (\<lambda>c v. if c then v else y) (map (\<lambda>v. t < v) r) r = map (\<lambda>v. if t < v then v else y) r"
  by (induction r) simp_all

lemma filtered_band_map:
  "filtered_band b = map (map (\<lambda>v. if 5000 < v then v else - 200)) b"
  unfolding filtered_band_def np_where_def gt_def
  by (induction b) (simp_all add: where_gt_row)

text \<open>
  C1. The filtering step maps every cell on its own: the output has the rows and columns of
  the cropped band, and the cell at row \<open>i\<close> and column \<open>j\<close> is the input cell when that is
  strictly greater than 5000 and the nodata value -200 otherwise. Nothing else is done to
  the data.
\<close>

theorem filtered_band_elementwise:
  "filtered_band b = map (map (\<lambda>v. if 5000 < v then v else - 200)) b \<and>
   length (filtered_band b) = length b \<and>
   (\<forall>i < length b. length (filtered_band b ! i) = length (b ! i) \<and>
      (\<forall>j < length (b ! i).
         filtered_band b ! i ! j = (if 5000 < b ! i ! j then b ! i ! j else - 200)))"
  by (simp add: filtered_band_map)

theorem filtered_band_elementwise_witness:
  "filtered_band demo_cropped = [[- 200, 5000.5, 7000], [6000, - 200, 5001]] \<and>
   (1::nat) < length demo_cropped \<and> (2::nat) < length (demo_cropped ! 1) \<and>
   filtered_band demo_cropped ! 1 ! 2 = 5001 \<and> filtered_band demo_cropped ! 0 ! 0 = - 200"
  using filtered_band_elementwise [of demo_cropped] by (simp add: demo_cropped_def)

text \<open>
  C9. The threshold filter is idempotent: filtering a filtered band gives the same band.
\<close>

theorem filtered_band_idempotent:
  "filtered_band (filtered_band b) = filtered_band b"
  by (simp add: filtered_band_map)

section \<open>Exceptions in the notebooks\<close>

text \<open>
  C8. Neither notebook catches, retries or replaces an exception. Whenever a call to a
  library raises, the run ends with an exception, namely that of the last call that raised
  (the failing call itself, or the leaving of the \<^verbatim>\<open>with\<close> block it stood in, should that
  raise as well); after the first call that raised no call is made except that leaving,
  which Python performs for the \<^verbatim>\<open>with\<close> statement. The world is only changed by the
  answers of the library, so nothing is rolled back. This holds for every library whose
  context managers do not suppress exceptions.
\<close>

theorem exceptions_propagate:
  assumes "no_suppress lib"
    and "raster_notebook lib (init w) = (r1, s1)"
    and "notebook lib (init w) = (r2, s2)"
  shows "outcome (raised r1) (trace s1) \<and> outcome (raised r2) (trace s2)"
proof -
  from propagates_raster_notebook [of lib] assms(1,2)
  have "outcome (raised r1) (trace s1)"
    unfolding propagates_def by (fastforce simp add: init_def)
  moreover from propagates_notebook [of lib] assms(1,3)
  have "outcome (raised r2) (trace s2)"
    unfolding propagates_def by (fastforce simp add: init_def)
  ultimately show ?thesis ..
qed

theorem exceptions_propagate_witness:
  "no_suppress (faulty is_write demo_lib) \<and>
   outcome (raised (fst (raster_notebook (faulty is_write demo_lib) (init None))))
           (trace (snd (raster_notebook (faulty is_write demo_lib) (init None)))) \<and>
   outcome (raised (fst (notebook (faulty is_write demo_lib) (init None))))
           (trace (snd (notebook (faulty is_write demo_lib) (init None)))) \<and>
   raised (fst (notebook (faulty is_write demo_lib) (init None))) = Some (Exn ''IOError'') \<and>
   after_failure (trace (snd (notebook (faulty is_write demo_lib) (init None)))) = [Exit (VObj 2)]"
proof -
  have "raised (fst (notebook (faulty is_write demo_lib) (init None))) = Some (Exn ''IOError'') \<and>
    after_failure (trace (snd (notebook (faulty is_write demo_lib) (init None)))) = [Exit (VObj 2)]"
    by (simp add: run_defs demo_defs array_defs raised_def after_failure_def)
  with exceptions_propagate [OF no_suppress_faulty_demo prod.collapse [symmetric]
      prod.collapse [symmetric], of is_write None] no_suppress_faulty_demo [of is_write]
  show ?thesis by simp
qed

section \<open>What the calls on plain values return\<close>

lemma gt_lengths: "map length (gt a t) = map length a"
  by (simp add: gt_def)

lemma consistent_threshold:
  assumes "consistent (Gt (VArray a) 5000, Inr msk)"
    and "consistent (Where msk (VArray a) (- 200), Inr fb)"
  shows "msk = VMask (gt a 5000)" "fb = VArray (filtered_band a)"
proof -
  from assms(1) show m: "msk = VMask (gt a 5000)"
    by (simp add: consistent_def builtin_def)
  with assms(2) show "fb = VArray (filtered_band a)"
    by (simp add: consistent_def builtin_def gt_lengths filtered_band_def)
qed

lemma consistent_shape:
  assumes "consistent (GetAttr (VArray a) ''shape'', Inr sh)"
  shows "sh = VTuple [VNum (of_nat (fst (shape a))), VNum (of_nat (snd (shape a)))]"
  using assms by (simp add: consistent_def builtin_def)

lemma consistent_item:
  assumes "consistent (GetItem (VTuple vs) i, Inr v)"
  shows "i < length vs \<and> v = vs ! i"
  using assms by (simp add: consistent_def builtin_def split: if_splits)

lemma consistent_update:
  assumes "consistent (DictUpdate (VDict d) kws, Inr v)"
  shows "v = VDict (dict_update d kws)"
  using assms by (simp add: consistent_def builtin_def)

lemma consistent_x_array:
  assumes "consistent (DataArray (VArray a), Inr x0)"
    and "consistent (Astype x0 ''int32'', Inr x1)"
    and "consistent (WriteNodata x1 (- 200), Inr x2)"
    and "consistent (WriteTransform x2 aff, Inr x3)"
    and "consistent (SetCrs x3 ''ESRI: 54009'' True, Inr xa)"
  shows "xa = VXarray (x_array a aff)"
proof -
  from assms(1) have "x0 = VXarray (data_array a)" by (simp add: consistent_def builtin_def)
  with assms(2) have "x1 = VXarray (astype (data_array a))"
    by (simp add: consistent_def builtin_def)
  with assms(3) have "x2 = VXarray (write_nodata (astype (data_array a)) (- 200))"
    by (simp add: consistent_def builtin_def)
  with assms(4) have "x3 = VXarray (write_transform (write_nodata (astype (data_array a)) (- 200)) aff)"
    by (simp add: consistent_def builtin_def)
  with assms(5) show ?thesis by (simp add: consistent_def builtin_def x_array_def)
qed

lemma map_of_dict_update: "map_of (dict_update d kws) = map_of d ++ map_of (rev kws)"
  unfolding dict_update_def
  by (induction kws arbitrary: d)
    (auto simp add: update_conv' fun_eq_iff map_add_def split: option.splits)

lemma profile_update_other:
  "k \<notin> {''transform'', ''height'', ''width''} \<Longrightarrow>
     map_of (profile_update p aff h w) k = map_of p k"
  by (simp add: profile_update_def map_of_dict_update map_add_def)

lemma profile_update_set:
  "map_of (profile_update p aff h w) ''transform'' = Some aff"
  "map_of (profile_update p aff h w) ''height'' = Some h"
  "map_of (profile_update p aff h w) ''width'' = Some w"
  by (simp_all add: profile_update_def map_of_dict_update map_add_def)






lemma x_array_nodata: "xnodata (x_array fb aff) = Some (- 200)"
  by (simp add: x_array_def set_crs_def write_transform_def write_nodata_def)

section \<open>The written profile, the nodata value and the filtered cells\<close>

text \<open>
  C2. In every run of the longer notebook that ends without an exception, the profile the
  output raster is opened with (the only \<^verbatim>\<open>rio.open\<close> in write mode) is the profile read
  from the input dataset, updated in three fields: \<open>transform\<close> is the transform returned
  for the crop, \<open>height\<close> and \<open>width\<close> are the two dimensions of the filtered band. Every
  other field, among them \<open>nodata\<close>, \<open>crs\<close> and \<open>dtype\<close>, has the value it has in the
  profile of the input dataset.
\<close>

theorem written_profile:
  assumes "no_suppress lib" and "notebook lib (init w0) = (Inr vars, s')"
  shows "\<exists>prof h w path.
     (GetAttr (v_dataset vars) ''profile'', Inr prof) \<in> set (trace s') \<and>
     filter is_write_open (map fst (trace s')) = [RioOpen path ''w'' (v_profile vars)] \<and>
     (\<forall>p. prof = VDict p \<longrightarrow>
        v_profile vars = VDict (profile_update p (v_aff vars) h w) \<and>
        map_of (profile_update p (v_aff vars) h w) ''transform'' = Some (v_aff vars) \<and>
        map_of (profile_update p (v_aff vars) h w) ''height'' = Some h \<and>
        map_of (profile_update p (v_aff vars) h w) ''width'' = Some w \<and>
        (\<forall>k. k \<notin> {''transform'', ''height'', ''width''} \<longrightarrow>
           map_of (profile_update p (v_aff vars) h w) k = map_of p k)) \<and>
     (\<forall>a. v_filtered_band vars = VArray a \<longrightarrow>
        h = VNum (of_nat (fst (shape a))) \<and> w = VNum (of_nat (snd (shape a))))"
  using assms
proof (cases rule: notebook_run)
  case (run path p v1 q1 v2 q2 v3 q3 v4 q4 v5 q5 v6 q6 q7 ty q8 q9
      b g gdf0 gs shapes t q10 msk q11 prof q12 sh0 h sh1 w wpath)
  have tr: "(GetAttr (v_dataset vars) ''profile'', Inr prof) \<in> set (trace s')"
    by (simp add: run(1) init_def)
  have op: "filter is_write_open (map fst (trace s')) = [RioOpen wpath ''w'' (v_profile vars)]"
    by (simp add: run(1) init_def is_write_open_def)
  have upd: "v_profile vars = VDict (profile_update p (v_aff vars) h w)" if "prof = VDict p" for p
    using run(9) that by (simp add: consistent_update profile_update_def)
  have sh: "h = VNum (of_nat (fst (shape a))) \<and> w = VNum (of_nat (snd (shape a)))"
    if "v_filtered_band vars = VArray a" for a
  proof -
    from run(5,7) that have "sh0 = VTuple [VNum (of_nat (fst (shape a))), VNum (of_nat (snd (shape a)))]"
      and "sh1 = VTuple [VNum (of_nat (fst (shape a))), VNum (of_nat (snd (shape a)))]"
      by (simp_all add: consistent_shape)
    with run(6,8) show ?thesis
      using consistent_item [of "[VNum (of_nat (fst (shape a))), VNum (of_nat (snd (shape a)))]" 0 h]
        consistent_item [of "[VNum (of_nat (fst (shape a))), VNum (of_nat (snd (shape a)))]" 1 w]
      by simp
  qed
  show ?thesis
  proof (intro exI conjI allI impI)
    show "(GetAttr (v_dataset vars) ''profile'', Inr prof) \<in> set (trace s')" by (rule tr)
    show "filter is_write_open (map fst (trace s')) = [RioOpen wpath ''w'' (v_profile vars)]"
      by (rule op)
    show "v_profile vars = VDict (profile_update p (v_aff vars) h w)" if "prof = VDict p" for p
      using that by (rule upd)
    show "map_of (profile_update p (v_aff vars) h w) ''transform'' = Some (v_aff vars)" for p
      by (rule profile_update_set)
    show "map_of (profile_update p (v_aff vars) h w) ''height'' = Some h" for p
      by (rule profile_update_set)
    show "map_of (profile_update p (v_aff vars) h w) ''width'' = Some w" for p
      by (rule profile_update_set)
    show "map_of (profile_update p (v_aff vars) h w) k = map_of p k"
      if "k \<notin> {''transform'', ''height'', ''width''}" for p k
      using that by (rule profile_update_other)
    show "h = VNum (of_nat (fst (shape a)))" if "v_filtered_band vars = VArray a" for a
      using sh [OF that] by simp
    show "w = VNum (of_nat (snd (shape a)))" if "v_filtered_band vars = VArray a" for a
      using sh [OF that] by simp
  qed
qed

theorem written_profile_witness:
  "no_suppress demo_lib \<and>
   (GetAttr (v_dataset demo_vars) ''profile'', Inr (VDict demo_profile))
     \<in> set (trace (snd (notebook demo_lib (init None)))) \<and>
   (\<exists>prof h w path.
     (GetAttr (v_dataset demo_vars) ''profile'', Inr prof)
       \<in> set (trace (snd (notebook demo_lib (init None)))) \<and>
     filter is_write_open (map fst (trace (snd (notebook demo_lib (init None))))) =
       [RioOpen path ''w'' (v_profile demo_vars)] \<and>
     (\<forall>p. prof = VDict p \<longrightarrow>
        v_profile demo_vars = VDict (profile_update p (v_aff demo_vars) h w) \<and>
        map_of (profile_update p (v_aff demo_vars) h w) ''transform'' = Some (v_aff demo_vars) \<and>
        map_of (profile_update p (v_aff demo_vars) h w) ''height'' = Some h \<and>
        map_of (profile_update p (v_aff demo_vars) h w) ''width'' = Some w \<and>
        (\<forall>k. k \<notin> {''transform'', ''height'', ''width''} \<longrightarrow>
           map_of (profile_update p (v_aff demo_vars) h w) k = map_of p k)) \<and>
     (\<forall>a. v_filtered_band demo_vars = VArray a \<longrightarrow>
        h = VNum (of_nat (fst (shape a))) \<and> w = VNum (of_nat (snd (shape a)))))"
  by (rule conjI [OF no_suppress_demo
        conjI [OF demo_profile_read written_profile [OF no_suppress_demo demo_run]]])

text \<open>
  C6. With an input raster whose profile declares the nodata value -200, the same value
  -200 is: the value the only \<^verbatim>\<open>np.where\<close> call puts in place of every cell that is not
  above 5000, the nodata value declared (by the only \<^verbatim>\<open>write_nodata\<close> call) on the labelled
  array that is passed to \<^verbatim>\<open>vectorize\<close>, and the nodata value of the profile the output
  raster is opened with.
\<close>

theorem nodata_sentinel:
  assumes "no_suppress lib" and "notebook lib (init w0) = (Inr vars, s')"
  shows "\<exists>msk x1 prof path.
     filter is_where (map fst (trace s')) = [Where msk (v_band_cropped vars) (- 200)] \<and>
     filter is_write_nodata (map fst (trace s')) = [WriteNodata x1 (- 200)] \<and>
     filter is_vectorize (map fst (trace s')) = [Vectorize (v_x_array vars)] \<and>
     (\<forall>a. v_band_cropped vars = VArray a \<longrightarrow>
        v_filtered_band vars = VArray (map (map (\<lambda>v. if 5000 < v then v else - 200)) a) \<and>
        v_x_array vars = VXarray (x_array (filtered_band a) (v_aff vars)) \<and>
        xnodata (x_array (filtered_band a) (v_aff vars)) = Some (- 200)) \<and>
     (GetAttr (v_dataset vars) ''profile'', Inr prof) \<in> set (trace s') \<and>
     filter is_write_open (map fst (trace s')) = [RioOpen path ''w'' (v_profile vars)] \<and>
     (\<forall>p. prof = VDict p \<longrightarrow> map_of p ''nodata'' = Some (VNum (- 200)) \<longrightarrow>
        (\<exists>p'. v_profile vars = VDict p' \<and> map_of p' ''nodata'' = Some (VNum (- 200))))"
  using assms
proof (cases rule: notebook_run)
  case (run path p v1 q1 v2 q2 v3 q3 v4 q4 v5 q5 v6 q6 q7 ty q8 q9
      b g gdf0 gs shapes t q10 msk q11 prof q12 sh0 h sh1 w wpath wr wv q13 q14
      rpath rd rv d pr q15 q16 q17 x0 x1 x2 x3)
  have fb: "v_filtered_band vars = VArray (filtered_band a)" if "v_band_cropped vars = VArray a" for a
    using run(3,4) that consistent_threshold(2) [of a msk "v_filtered_band vars"] by simp
  have xa: "v_x_array vars = VXarray (x_array (filtered_band a) (v_aff vars))"
    if "v_band_cropped vars = VArray a" for a
    using run(10-14) fb [OF that]
      consistent_x_array [of "filtered_band a" x0 x1 x2 "v_aff vars" x3 "v_x_array vars"]
    by simp
  have nd: "\<exists>p'. v_profile vars = VDict p' \<and> map_of p' ''nodata'' = Some (VNum (- 200))"
    if "prof = VDict p" "map_of p ''nodata'' = Some (VNum (- 200))" for p
  proof -
    from run(9) that(1) have "v_profile vars = VDict (profile_update p (v_aff vars) h w)"
      by (simp add: consistent_update profile_update_def)
    moreover have "map_of (profile_update p (v_aff vars) h w) ''nodata'' = Some (VNum (- 200))"
      using that(2) by (simp add: profile_update_other)
    ultimately show ?thesis by blast
  qed
  show ?thesis
  proof (rule exI [of _ msk], rule exI [of _ x1], rule exI [of _ prof], rule exI [of _ wpath],
      intro conjI allI impI)
    show "filter is_where (map fst (trace s')) = [Where msk (v_band_cropped vars) (- 200)]"
      by (simp add: run(1) init_def is_where_def)
    show "filter is_write_nodata (map fst (trace s')) = [WriteNodata x1 (- 200)]"
      by (simp add: run(1) init_def is_write_nodata_def)
    show "filter is_vectorize (map fst (trace s')) = [Vectorize (v_x_array vars)]"
      by (simp add: run(1) init_def is_vectorize_def)
    show "v_filtered_band vars = VArray (map (map (\<lambda>v. if 5000 < v then v else - 200)) a)"
      if "v_band_cropped vars = VArray a" for a
      using fb [OF that] by (simp add: filtered_band_map)
    show "v_x_array vars = VXarray (x_array (filtered_band a) (v_aff vars))"
      if "v_band_cropped vars = VArray a" for a
      using that by (rule xa)
    show "xnodata (x_array (filtered_band a) (v_aff vars)) = Some (- 200)" for a
      by (rule x_array_nodata)
    show "(GetAttr (v_dataset vars) ''profile'', Inr prof) \<in> set (trace s')"
      by (simp add: run(1) init_def)
    show "filter is_write_open (map fst (trace s')) = [RioOpen wpath ''w'' (v_profile vars)]"
      by (simp add: run(1) init_def is_write_open_def)
    show "\<exists>p'. v_profile vars = VDict p' \<and> map_of p' ''nodata'' = Some (VNum (- 200))"
      if "prof = VDict p" "map_of p ''nodata'' = Some (VNum (- 200))" for p
      using that by (rule nd)
  qed
qed

theorem nodata_sentinel_witness:
  "no_suppress demo_lib \<and> map_of demo_profile ''nodata'' = Some (VNum (- 200)) \<and>
   (GetAttr (v_dataset demo_vars) ''profile'', Inr (VDict demo_profile))
     \<in> set (trace (snd (notebook demo_lib (init None)))) \<and>
   (\<exists>msk x1 prof path.
     filter is_where (map fst (trace (snd (notebook demo_lib (init None))))) =
       [Where msk (v_band_cropped demo_vars) (- 200)] \<and>
     filter is_write_nodata (map fst (trace (snd (notebook demo_lib (init None))))) =
       [WriteNodata x1 (- 200)] \<and>
     filter is_vectorize (map fst (trace (snd (notebook demo_lib (init None))))) =
       [Vectorize (v_x_array demo_vars)] \<and>
     (\<forall>a. v_band_cropped demo_vars = VArray a \<longrightarrow>
        v_filtered_band demo_vars = VArray (map (map (\<lambda>v. if 5000 < v then v else - 200)) a) \<and>
        v_x_array demo_vars = VXarray (x_array (filtered_band a) (v_aff demo_vars)) \<and>
        xnodata (x_array (filtered_band a) (v_aff demo_vars)) = Some (- 200)) \<and>
     (GetAttr (v_dataset demo_vars) ''profile'', Inr prof)
       \<in> set (trace (snd (notebook demo_lib (init None)))) \<and>
     filter is_write_open (map fst (trace (snd (notebook demo_lib (init None))))) =
       [RioOpen path ''w'' (v_profile demo_vars)] \<and>
     (\<forall>p. prof = VDict p \<longrightarrow> map_of p ''nodata'' = Some (VNum (- 200)) \<longrightarrow>
        (\<exists>p'. v_profile demo_vars = VDict p' \<and> map_of p' ''nodata'' = Some (VNum (- 200)))))"
proof -
  have n: "map_of demo_profile ''nodata'' = Some (VNum (- 200))"
    by (simp add: demo_profile_def)
  show ?thesis
    by (rule conjI [OF no_suppress_demo conjI [OF n
          conjI [OF demo_profile_read nodata_sentinel [OF no_suppress_demo demo_run]]]])
qed




section \<open>The flow of the longer notebook\<close>




section \<open>The crop window\<close>

text \<open>
  C7. In a run of either notebook that ends without an exception there is exactly one call
  of \<^verbatim>\<open>raster_geometry_mask\<close>. It is applied to the dataset and to the geometry values of the
  frame that holds \<^verbatim>\<open>box(*bbox)\<close> with CRS \<^verbatim>\<open>EPSG: 4326\<close>, reprojected to \<^verbatim>\<open>ESRI: 54009\<close>,
  with \<^verbatim>\<open>crop=True\<close> and \<^verbatim>\<open>all_touched=True\<close>. The window unpacked from its result is the
  window of the only windowed read, and that read is the very next call: the notebooks do
  nothing to the window.
\<close>

theorem crop_window_single_call:
  "(raster_notebook lib (init w0) = (Inr rv, s1) \<longrightarrow>
      (\<exists>b g gdf gs shapes t m.
         sublist
           [(Box bbox, Inr b), (GeoDataFrame [b] ''EPSG: 4326'', Inr g),
            (ToCrs g ''ESRI: 54009'', Inr gdf), (GetAttr gdf ''geometry'', Inr gs),
            (GetAttr gs ''values'', Inr shapes),
            (RasterGeometryMask (v_dataset rv) shapes True True, Inr t),
            (Read (v_dataset rv) 1 (Some (v_window rv)), Inr (v_band_cropped rv))]
           (trace s1) \<and>
         (t = VTuple [m, v_aff rv, v_window rv] \<or> t = VList [m, v_aff rv, v_window rv]) \<and>
         filter is_mask_call (map fst (trace s1)) =
           [RasterGeometryMask (v_dataset rv) shapes True True] \<and>
         filter is_window_read (map fst (trace s1)) =
           [Read (v_dataset rv) 1 (Some (v_window rv))])) \<and>
   (no_suppress lib \<longrightarrow> notebook lib (init w0) = (Inr vars, s2) \<longrightarrow>
      (\<exists>b g gdf gs shapes t m.
         sublist
           [(Box bbox, Inr b), (GeoDataFrame [b] ''EPSG: 4326'', Inr g),
            (ToCrs g ''ESRI: 54009'', Inr gdf), (GetAttr gdf ''geometry'', Inr gs),
            (GetAttr gs ''values'', Inr shapes),
            (RasterGeometryMask (v_dataset vars) shapes True True, Inr t),
            (Read (v_dataset vars) 1 (Some (v_window vars)), Inr (v_band_cropped vars))]
           (trace s2) \<and>
         (t = VTuple [m, v_aff vars, v_window vars] \<or> t = VList [m, v_aff vars, v_window vars]) \<and>
         filter is_mask_call (map fst (trace s2)) =
           [RasterGeometryMask (v_dataset vars) shapes True True] \<and>
         filter is_window_read (map fst (trace s2)) =
           [Read (v_dataset vars) 1 (Some (v_window vars))]))"
proof (intro conjI impI)
  assume "raster_notebook lib (init w0) = (Inr rv, s1)"
  then show "\<exists>b g gdf gs shapes t m.
         sublist
           [(Box bbox, Inr b), (GeoDataFrame [b] ''EPSG: 4326'', Inr g),
            (ToCrs g ''ESRI: 54009'', Inr gdf), (GetAttr gdf ''geometry'', Inr gs),
            (GetAttr gs ''values'', Inr shapes),
            (RasterGeometryMask (v_dataset rv) shapes True True, Inr t),
            (Read (v_dataset rv) 1 (Some (v_window rv)), Inr (v_band_cropped rv))]
           (trace s1) \<and>
         (t = VTuple [m, v_aff rv, v_window rv] \<or> t = VList [m, v_aff rv, v_window rv]) \<and>
         filter is_mask_call (map fst (trace s1)) =
           [RasterGeometryMask (v_dataset rv) shapes True True] \<and>
         filter is_window_read (map fst (trace s1)) =
           [Read (v_dataset rv) 1 (Some (v_window rv))]"
  proof (cases rule: raster_notebook_run)
    case (run b g gdf0 gs shapes t m)
    show ?thesis
    proof (rule exI [of _ b], rule exI [of _ g], rule exI [of _ gdf0], rule exI [of _ gs],
        rule exI [of _ shapes], rule exI [of _ t], rule exI [of _ m], intro conjI)
      show "sublist
           [(Box bbox, Inr b), (GeoDataFrame [b] ''EPSG: 4326'', Inr g),
            (ToCrs g ''ESRI: 54009'', Inr gdf0), (GetAttr gdf0 ''geometry'', Inr gs),
            (GetAttr gs ''values'', Inr shapes),
            (RasterGeometryMask (v_dataset rv) shapes True True, Inr t),
            (Read (v_dataset rv) 1 (Some (v_window rv)), Inr (v_band_cropped rv))]
           (trace s1)"
        by (simp add: run(1) init_def sublist_code(3))
      show "t = VTuple [m, v_aff rv, v_window rv] \<or> t = VList [m, v_aff rv, v_window rv]"
        by (rule run(2))
      show "filter is_mask_call (map fst (trace s1)) =
           [RasterGeometryMask (v_dataset rv) shapes True True]"
        by (simp add: run(1) init_def is_mask_call_def)
      show "filter is_window_read (map fst (trace s1)) =
           [Read (v_dataset rv) 1 (Some (v_window rv))]"
        by (simp add: run(1) init_def is_window_read_def)
    qed
  qed
next
  assume "no_suppress lib" and "notebook lib (init w0) = (Inr vars, s2)"
  then show "\<exists>b g gdf gs shapes t m.
         sublist
           [(Box bbox, Inr b), (GeoDataFrame [b] ''EPSG: 4326'', Inr g),
            (ToCrs g ''ESRI: 54009'', Inr gdf), (GetAttr gdf ''geometry'', Inr gs),
            (GetAttr gs ''values'', Inr shapes),
            (RasterGeometryMask (v_dataset vars) shapes True True, Inr t),
            (Read (v_dataset vars) 1 (Some (v_window vars)), Inr (v_band_cropped vars))]
           (trace s2) \<and>
         (t = VTuple [m, v_aff vars, v_window vars] \<or> t = VList [m, v_aff vars, v_window vars]) \<and>
         filter is_mask_call (map fst (trace s2)) =
           [RasterGeometryMask (v_dataset vars) shapes True True] \<and>
         filter is_window_read (map fst (trace s2)) =
           [Read (v_dataset vars) 1 (Some (v_window vars))]"
  proof (cases rule: notebook_run)
    case (run path p v1 q1 v2 q2 v3 q3 v4 q4 v5 q5 v6 q6 q7 ty q8 q9
      b g gdf0 gs shapes t q10 msk q11 prof q12 sh0 h sh1 w wpath wr wv q13 q14
      rpath rd rv d pr q15 q16 q17 x0 x1 x2 x3 q18 q19 q20 m)
    show ?thesis
    proof (rule exI [of _ b], rule exI [of _ g], rule exI [of _ gdf0], rule exI [of _ gs],
        rule exI [of _ shapes], rule exI [of _ t], rule exI [of _ m], intro conjI)
      show "sublist
           [(Box bbox, Inr b), (GeoDataFrame [b] ''EPSG: 4326'', Inr g),
            (ToCrs g ''ESRI: 54009'', Inr gdf0), (GetAttr gdf0 ''geometry'', Inr gs),
            (GetAttr gs ''values'', Inr shapes),
            (RasterGeometryMask (v_dataset vars) shapes True True, Inr t),
            (Read (v_dataset vars) 1 (Some (v_window vars)), Inr (v_band_cropped vars))]
           (trace s2)"
        by (simp add: run(1) init_def sublist_code(3))
      show "t = VTuple [m, v_aff vars, v_window vars] \<or> t = VList [m, v_aff vars, v_window vars]"
        by (rule run(2))
      show "filter is_mask_call (map fst (trace s2)) =
           [RasterGeometryMask (v_dataset vars) shapes True True]"
        by (simp add: run(1) init_def is_mask_call_def)
      show "filter is_window_read (map fst (trace s2)) =
           [Read (v_dataset vars) 1 (Some (v_window vars))]"
        by (simp add: run(1) init_def is_window_read_def)
    qed
  qed
qed

theorem crop_window_single_call_witness:
  "no_suppress demo_lib \<and>
   (\<exists>b g gdf gs shapes t m.
         sublist
           [(Box bbox, Inr b), (GeoDataFrame [b] ''EPSG: 4326'', Inr g),
            (ToCrs g ''ESRI: 54009'', Inr gdf), (GetAttr gdf ''geometry'', Inr gs),
            (GetAttr gs ''values'', Inr shapes),
            (RasterGeometryMask (v_dataset demo_raster_vars) shapes True True, Inr t),
            (Read (v_dataset demo_raster_vars) 1 (Some (v_window demo_raster_vars)),
             Inr (v_band_cropped demo_raster_vars))]
           (trace (snd (raster_notebook demo_lib (init None)))) \<and>
         (t = VTuple [m, v_aff demo_raster_vars, v_window demo_raster_vars] \<or>
          t = VList [m, v_aff demo_raster_vars, v_window demo_raster_vars]) \<and>
         filter is_mask_call (map fst (trace (snd (raster_notebook demo_lib (init None))))) =
           [RasterGeometryMask (v_dataset demo_raster_vars) shapes True True] \<and>
         filter is_window_read (map fst (trace (snd (raster_notebook demo_lib (init None))))) =
           [Read (v_dataset demo_raster_vars) 1 (Some (v_window demo_raster_vars))]) \<and>
   (\<exists>b g gdf gs shapes t m.
         sublist
           [(Box bbox, Inr b), (GeoDataFrame [b] ''EPSG: 4326'', Inr g),
            (ToCrs g ''ESRI: 54009'', Inr gdf), (GetAttr gdf ''geometry'', Inr gs),
            (GetAttr gs ''values'', Inr shapes),
            (RasterGeometryMask (v_dataset demo_vars) shapes True True, Inr t),
            (Read (v_dataset demo_vars) 1 (Some (v_window demo_vars)),
             Inr (v_band_cropped demo_vars))]
           (trace (snd (notebook demo_lib (init None)))) \<and>
         (t = VTuple [m, v_aff demo_vars, v_window demo_vars] \<or>
          t = VList [m, v_aff demo_vars, v_window demo_vars]) \<and>
         filter is_mask_call (map fst (trace (snd (notebook demo_lib (init None))))) =
           [RasterGeometryMask (v_dataset demo_vars) shapes True True] \<and>
         filter is_window_read (map fst (trace (snd (notebook demo_lib (init None))))) =
           [Read (v_dataset demo_vars) 1 (Some (v_window demo_vars))])"
proof -
  note th = crop_window_single_call [of demo_lib None demo_raster_vars
      "snd (raster_notebook demo_lib (init None))" demo_vars "snd (notebook demo_lib (init None))"]
  from no_suppress_demo th [THEN conjunct1, rule_format, OF demo_raster_run]
    th [THEN conjunct2, rule_format, OF no_suppress_demo demo_run]
  show ?thesis by (rule conjI [OF _ conjI])
qed

section \<open>The two notebooks\<close>

lemma py_bind_assoc: "py_bind (py_bind m f) g = py_bind m (\<lambda>x. py_bind (f x) g)"
proof
  fix s
  obtain r s1 where "m s = (r, s1)" by (cases "m s")
  then show "py_bind (py_bind m f) g s = py_bind m (\<lambda>x. py_bind (f x) g) s"
    by (cases r) (simp_all add: py_bind_def)
qed

lemma py_return_bind: "py_bind (py_return x) f = f x"
  by (simp add: py_bind_def py_return_def fun_eq_iff)

lemma notebook_split:
  "notebook lib =
     py_bind (raster_notebook lib) (\<lambda>rv.
     py_bind (nb_filter lib (v_dataset rv) (v_aff rv) (v_band_cropped rv)) (\<lambda>(fb, profile).
     py_bind (nb_reread lib) (\<lambda>_.
     py_bind (nb_vectorize lib fb (v_aff rv)) (\<lambda>(xa, gdf).
     py_return \<lparr>v_dataset = v_dataset rv, v_band = v_band rv, v_aff = v_aff rv,
                v_window = v_window rv, v_band_cropped = v_band_cropped rv,
                v_filtered_band = fb, v_profile = profile, v_x_array = xa, v_gdf = gdf\<rparr>))))"
  unfolding notebook_def raster_notebook_def raster_cells_eq
  by (simp add: py_bind_assoc py_return_bind split_def)

lemma propagates_extends:
  assumes "propagates lib m" "m s = (r, s')"
  shows "prefix (trace s) (trace s')"
  using assms unfolding propagates_def by (fastforce simp add: prefix_def)

text \<open>
  C5. Started in the same state with the same library, the longer notebook begins with the
  calls of \<^verbatim>\<open>raster.ipynb\<close>, with the same arguments and the same results: the trace of
  \<^verbatim>\<open>raster.ipynb\<close> is a prefix of the trace of the longer notebook. When \<^verbatim>\<open>raster.ipynb\<close>
  ends with an exception, the longer notebook ends with the same exception in the same
  state; when both end without one, \<open>dataset\<close>, \<open>band\<close>, \<open>aff\<close>, \<open>window\<close> and
  \<open>band_cropped\<close> have the same values in both.
\<close>

theorem notebooks_agree:
  assumes "raster_notebook lib s = (r1, s1)" and "notebook lib s = (r2, s2)"
  shows "prefix (trace s1) (trace s2) \<and>
         (\<forall>e. r1 = Inl e \<longrightarrow> r2 = Inl e \<and> s2 = s1) \<and>
         (\<forall>rv vars. r1 = Inr rv \<longrightarrow> r2 = Inr vars \<longrightarrow> raster_vars.truncate vars = rv)"
proof (cases r1)
  case (Inl e)
  with assms have "r2 = Inl e" "s2 = s1"
    by (simp_all add: notebook_split py_bind_def)
  with Inl show ?thesis by simp
next
  case (Inr rv)
  define rest where "rest =
     py_bind (nb_filter lib (v_dataset rv) (v_aff rv) (v_band_cropped rv)) (\<lambda>(fb, profile).
     py_bind (nb_reread lib) (\<lambda>_.
     py_bind (nb_vectorize lib fb (v_aff rv)) (\<lambda>(xa, gdf).
     py_return \<lparr>v_dataset = v_dataset rv, v_band = v_band rv, v_aff = v_aff rv,
                v_window = v_window rv, v_band_cropped = v_band_cropped rv,
                v_filtered_band = fb, v_profile = profile, v_x_array = xa, v_gdf = gdf\<rparr>)))"
  from assms Inr have r: "rest s1 = (r2, s2)"
    by (simp add: notebook_split py_bind_def rest_def)
  have "propagates lib rest"
    unfolding rest_def nb_filter_def nb_reread_def nb_vectorize_def
    by (intro propagates_bind propagates_call propagates_return propagates_with
        propagates_unpack3 propagates_split)
  then have p: "prefix (trace s1) (trace s2)" using r by (rule propagates_extends)
  have "raster_vars.truncate vars = rv" if "r2 = Inr vars" for vars
  proof -
    from r that have "rest s1 = (Inr vars, s2)" by simp
    then obtain fb profile xa gdf where
      "vars = \<lparr>v_dataset = v_dataset rv, v_band = v_band rv, v_aff = v_aff rv,
                v_window = v_window rv, v_band_cropped = v_band_cropped rv,
                v_filtered_band = fb, v_profile = profile, v_x_array = xa, v_gdf = gdf\<rparr>"
      unfolding rest_def
      by (elim py_bind_pair_InrE py_bind_InrE py_return_InrE) simp
    then show ?thesis by (simp add: raster_vars.truncate_def)
  qed
  with p Inr show ?thesis by simp
qed

theorem notebooks_agree_witness:
  "prefix (trace (snd (raster_notebook demo_lib (init None))))
          (trace (snd (notebook demo_lib (init None)))) \<and>
   raster_vars.truncate demo_vars = demo_raster_vars \<and>
   v_dataset demo_vars = v_dataset demo_raster_vars \<and>
   v_band demo_vars = v_band demo_raster_vars \<and>
   v_window demo_vars = v_window demo_raster_vars \<and>
   v_band_cropped demo_vars = v_band_cropped demo_raster_vars \<and>
   fst (raster_notebook (faulty is_mask_call demo_lib) (init None)) = Inl (Exn ''IOError'') \<and>
   fst (notebook (faulty is_mask_call demo_lib) (init None)) = Inl (Exn ''IOError'') \<and>
   snd (notebook (faulty is_mask_call demo_lib) (init None)) =
     snd (raster_notebook (faulty is_mask_call demo_lib) (init None))"
proof -
  have f: "fst (raster_notebook (faulty is_mask_call demo_lib) (init None)) = Inl (Exn ''IOError'')"
    by (simp add: run_defs demo_defs array_defs)
  from notebooks_agree [OF prod.collapse [symmetric] prod.collapse [symmetric],
      of "faulty is_mask_call demo_lib" "init None"] f
  have "fst (notebook (faulty is_mask_call demo_lib) (init None)) = Inl (Exn ''IOError'') \<and>
        snd (notebook (faulty is_mask_call demo_lib) (init None)) =
          snd (raster_notebook (faulty is_mask_call demo_lib) (init None))"
    by blast
  with f notebooks_agree [OF demo_raster_run demo_run] show ?thesis
    by (simp add: demo_vars_def demo_raster_vars_def raster_vars.truncate_def)
qed

end
